theory Spec2Isabelle
  imports Complex_Main "HOL-Library.Sublist"
begin

section \<open>JavaScript values\<close>

text \<open>
  The executors receive \<^verbatim>\<open>state.variables.lastOutput\<close> typed \<^verbatim>\<open>any\<close>. The value domain
  modelled here is plain data: \<^verbatim>\<open>undefined\<close>, \<^verbatim>\<open>null\<close>, booleans, numbers, strings,
  arrays and plain objects. Numbers are the integers (no fractions, no \<^verbatim>\<open>NaN\<close>), strings
  are sequences of code units below 256, arrays have no holes, and an object is the list
  of its own enumerable properties in the order \<^verbatim>\<open>Object.keys\<close> enumerates them.
\<close>

datatype jsval =
    JUndefined
  | JNull
  | JBool bool
  | JNum int
  | JStr string
  | JArr "jsval list"
  | JObj "(string \<times> jsval) list"

text \<open>A thrown value: its constructor and its \<^verbatim>\<open>message\<close>.\<close>

datatype jsError = TypeError string | Error string

fun message :: "jsError \<Rightarrow> string" where
  "message (TypeError m) = m"
| "message (Error m) = m"

fun andThen :: "jsError + 'a \<Rightarrow> ('a \<Rightarrow> jsError + 'b) \<Rightarrow> jsError + 'b" where
  "andThen (Inl e) f = Inl e"
| "andThen (Inr x) f = f x"

fun truthy :: "jsval \<Rightarrow> bool" where
  "truthy JUndefined = False"
| "truthy JNull = False"
| "truthy (JBool b) = b"
| "truthy (JNum n) = (n \<noteq> 0)"
| "truthy (JStr s) = (s \<noteq> [])"
| "truthy (JArr xs) = True"
| "truthy (JObj kvs) = True"

text \<open>\<^verbatim>\<open>a || b\<close>\<close>

definition jsOr :: "jsval \<Rightarrow> jsval \<Rightarrow> jsval" where
  "jsOr a b = (if truthy a then a else b)"

fun nullish :: "jsval \<Rightarrow> bool" where
  "nullish JUndefined = True"
| "nullish JNull = True"
| "nullish v = False"

fun isArray :: "jsval \<Rightarrow> bool" where
  "isArray (JArr xs) = True"
| "isArray v = False"

text \<open>\<^verbatim>\<open>typeof v === 'object'\<close>: true of \<^verbatim>\<open>null\<close>, of arrays and of objects.\<close>

fun typeofObject :: "jsval \<Rightarrow> bool" where
  "typeofObject JNull = True"
| "typeofObject (JArr xs) = True"
| "typeofObject (JObj kvs) = True"
| "typeofObject v = False"

definition hasOwn :: "(string \<times> jsval) list \<Rightarrow> string \<Rightarrow> bool" where
  "hasOwn kvs k = (map_of kvs k \<noteq> None)"

definition quoted :: "string \<Rightarrow> string" where
  "quoted k = [CHR 0x27] @ k @ [CHR 0x27]"

text \<open>
  \<^verbatim>\<open>v.k\<close> for the data keys the executors read (none of them is an array index,
  \<^verbatim>\<open>length\<close> or a prototype member): reading a property of \<^verbatim>\<open>undefined\<close> or \<^verbatim>\<open>null\<close>
  throws, a primitive or an array has no such property, an object gives its own one.
\<close>

fun getProp :: "jsval \<Rightarrow> string \<Rightarrow> jsError + jsval" where
  "getProp JUndefined k =
     Inl (TypeError (''Cannot read properties of undefined (reading '' @ quoted k @ '')''))"
| "getProp JNull k =
     Inl (TypeError (''Cannot read properties of null (reading '' @ quoted k @ '')''))"
| "getProp (JObj kvs) k = Inr (case map_of kvs k of None \<Rightarrow> JUndefined | Some v \<Rightarrow> v)"
| "getProp v k = Inr JUndefined"

text \<open>\<^verbatim>\<open>k in v\<close>, evaluated by the source only where \<^verbatim>\<open>typeof v === 'object'\<close>.\<close>

fun jsIn :: "string \<Rightarrow> jsval \<Rightarrow> jsError + bool" where
  "jsIn k (JObj kvs) = Inr (hasOwn kvs k)"
| "jsIn k (JArr xs) = Inr False"
| "jsIn k v =
     Inl (TypeError (''Cannot use '' @ quoted ''in'' @ '' operator to search for '' @ quoted k))"

subsection \<open>Conversion to string\<close>

definition digitChar :: "nat \<Rightarrow> char" where
  "digitChar n = ''0123456789'' ! n"

function showNat :: "nat \<Rightarrow> string" where
  "showNat n = (if n < 10 then [digitChar n] else showNat (n div 10) @ [digitChar (n mod 10)])"
  by pat_completeness auto
termination
  by (relation "measure id") auto

declare showNat.simps [simp del]

definition showInt :: "int \<Rightarrow> string" where
  "showInt i = (if i < 0 then CHR ''-'' # showNat (nat (- i)) else showNat (nat i))"

text \<open>
  \<^verbatim>\<open>ToString(v)\<close>, as a template literal applies it. An array is joined with commas,
  \<^verbatim>\<open>undefined\<close> and \<^verbatim>\<open>null\<close> elements giving the empty string. A plain object gives
  \<^verbatim>\<open>[object Object]\<close> through \<^verbatim>\<open>Object.prototype.toString\<close>, unless it has an own property
  \<^verbatim>\<open>toString\<close>: that one is data, so it is not callable, \<^verbatim>\<open>valueOf\<close> returns the object
  itself, and the conversion throws.
\<close>

fun jsToString :: "jsval \<Rightarrow> jsError + string"
  and joinElems :: "jsval list \<Rightarrow> jsError + string" where
  "jsToString JUndefined = Inr ''undefined''"
| "jsToString JNull = Inr ''null''"
| "jsToString (JBool b) = Inr (if b then ''true'' else ''false'')"
| "jsToString (JNum n) = Inr (showInt n)"
| "jsToString (JStr s) = Inr s"
| "jsToString (JArr xs) = joinElems xs"
| "jsToString (JObj kvs) =
     (if hasOwn kvs ''toString'' then Inl (TypeError ''Cannot convert object to primitive value'')
      else Inr ''[object Object]'')"
| "joinElems [] = Inr []"
| "joinElems (x # xs) =
     andThen (if nullish x then Inr [] else jsToString x) (\<lambda>s.
       if xs = [] then Inr s
       else andThen (joinElems xs) (\<lambda>r. Inr (s @ '','' @ r)))"

text \<open>\<^verbatim>\<open>item.toString()\<close>, the method call.\<close>

fun callToString :: "jsval \<Rightarrow> jsError + string" where
  "callToString JUndefined = andThen (getProp JUndefined ''toString'') (\<lambda>_. Inr [])"
| "callToString JNull = andThen (getProp JNull ''toString'') (\<lambda>_. Inr [])"
| "callToString (JObj kvs) =
     (if hasOwn kvs ''toString'' then Inl (TypeError ''item.toString is not a function'')
      else Inr ''[object Object]'')"
| "callToString v = jsToString v"

subsection \<open>Strings\<close>

text \<open>\<^verbatim>\<open>s.includes(pat)\<close>\<close>

fun strIncludes :: "string \<Rightarrow> string \<Rightarrow> bool" where
  "strIncludes [] pat = (pat = [])"
| "strIncludes (c # cs) pat = (prefix pat (c # cs) \<or> strIncludes cs pat)"

text \<open>White space and line terminators below code unit 256, as \<^verbatim>\<open>trim\<close> removes them.\<close>

definition isWhiteSpace :: "char \<Rightarrow> bool" where
  "isWhiteSpace c = (c \<in> set [CHR 0x09, CHR 0x0A, CHR 0x0B, CHR 0x0C, CHR 0x0D, CHR 0x20, CHR 0xA0])"

definition trim :: "string \<Rightarrow> string" where
  "trim s = rev (dropWhile isWhiteSpace (rev (dropWhile isWhiteSpace s)))"

text \<open>
  \<^verbatim>\<open>toLowerCase\<close> on code units below 256: the letters A to Z, and the Latin-1 capitals
  (0xC0 to 0xDE without the multiplication sign 0xD7), move up by 32.
\<close>

definition lowerChar :: "char \<Rightarrow> char" where
  "lowerChar c =
     (let n = of_char c :: nat
      in if (65 \<le> n \<and> n \<le> 90) \<or> (192 \<le> n \<and> n \<le> 222 \<and> n \<noteq> 215) then char_of (n + 32) else c)"

definition toLowerCase :: "string \<Rightarrow> string" where
  "toLowerCase s = map lowerChar s"

text \<open>\<^verbatim>\<open>s.length > n ? s.substring(0, n) : s\<close> is \<open>take n s\<close>.\<close>

definition substring0 :: "nat \<Rightarrow> string \<Rightarrow> string" where
  "substring0 n s = take n s"

section \<open>Work items\<close>

text \<open>
  The objects the normalizers return. A property the source does not set reads as
  \<^verbatim>\<open>undefined\<close>: the image normalizer sets no \<^verbatim>\<open>sourceImage\<close>, the video normalizer no
  \<^verbatim>\<open>style\<close>. The fields hold whatever value the input carried, so they are \<open>jsval\<close>.
\<close>

record workItem =
  shotNumber :: jsval
  prompt :: jsval
  sourceImage :: jsval
  aspectRatio :: jsval
  style :: jsval

text \<open>\<^verbatim>\<open>array.map((item, index) => ...)\<close> with a callback that may throw.\<close>

fun mapIndexed :: "(jsval \<Rightarrow> nat \<Rightarrow> jsError + 'b) \<Rightarrow> nat \<Rightarrow> jsval list \<Rightarrow> jsError + 'b list" where
  "mapIndexed f i [] = Inr []"
| "mapIndexed f i (x # xs) =
     andThen (f x i) (\<lambda>y. andThen (mapIndexed f (i + 1) xs) (\<lambda>ys. Inr (y # ys)))"

definition indexPlus1 :: "nat \<Rightarrow> jsval" where
  "indexPlus1 index = JNum (int index + 1)"

section \<open>Markdown extraction\<close>

text \<open>
  \<open>splitOn pat s\<close> finds the leftmost occurrence of \<open>pat\<close> in \<open>s\<close> and returns what is
  before it and what is after it.
\<close>

fun splitOn :: "string \<Rightarrow> string \<Rightarrow> (string \<times> string) option" where
  "splitOn pat [] = (if pat = [] then Some ([], []) else None)"
| "splitOn pat (c # cs) =
     (if prefix pat (c # cs) then Some ([], drop (length pat) (c # cs))
      else map_option (\<lambda>(before, after). (c # before, after)) (splitOn pat cs))"

definition fenceOpen :: string where
  "fenceOpen = [CHR 0x60, CHR 0x60, CHR 0x60, CHR 0x0A]"

definition fenceClose :: string where
  "fenceClose = [CHR 0x0A, CHR 0x60, CHR 0x60, CHR 0x60]"

definition backticks :: string where
  "backticks = [CHR 0x60, CHR 0x60, CHR 0x60]"

text \<open>
  One \<^verbatim>\<open>codeBlockRegex.exec(text)\<close> of the regular expression
  \<^verbatim>\<open>/```\n([\s\S]*?)\n```/g\<close>, on the text from \<^verbatim>\<open>lastIndex\<close> on: the match starts at the
  leftmost three backticks followed by a newline; the lazy group takes the shortest text
  up to the next newline followed by three backticks. When the leftmost opening has no
  closing after it, no later opening has one either, and there is no match. The result is
  group 1 and the text after the match (the next \<^verbatim>\<open>lastIndex\<close>).
\<close>

definition codeBlockRegex_exec :: "string \<Rightarrow> (string \<times> string) option" where
  "codeBlockRegex_exec text =
     (case splitOn fenceOpen text of
        None \<Rightarrow> None
      | Some (before, afterOpen) \<Rightarrow> splitOn fenceClose afterOpen)"

text \<open>The test of the \<^verbatim>\<open>if (...) continue\<close> in the loop, on the trimmed block.\<close>

definition skipBlock :: "string \<Rightarrow> bool" where
  "skipBlock blockContent =
     (strIncludes (toLowerCase blockContent) ''negative prompt:'' \<or>
      strIncludes (toLowerCase blockContent) ''technical specifications'' \<or>
      length blockContent < 50)"

lemma splitOn_shorter:
  "splitOn pat s = Some (b, a) \<Longrightarrow> length a + length pat \<le> length s"
proof (induction s arbitrary: b)
  case Nil
  then show ?case by (simp split: if_splits)
next
  case (Cons c cs)
  show ?case
  proof (cases "prefix pat (c # cs)")
    case True
    with Cons.prems have "a = drop (length pat) (c # cs)" by simp
    moreover from True have "length pat \<le> length (c # cs)" by (rule prefix_length_le)
    ultimately show ?thesis by simp
  next
    case False
    with Cons.prems obtain b' where "splitOn pat cs = Some (b', a)"
      by (auto split: prod.splits)
    from Cons.IH [OF this] show ?thesis by simp
  qed
qed

lemma codeBlockRegex_exec_shorter:
  "codeBlockRegex_exec text = Some (content, rest) \<Longrightarrow> length rest < length text"
proof -
  assume m: "codeBlockRegex_exec text = Some (content, rest)"
  then obtain before afterOpen where
    o: "splitOn fenceOpen text = Some (before, afterOpen)" and
    c: "splitOn fenceClose afterOpen = Some (content, rest)"
    by (auto simp: codeBlockRegex_exec_def split: option.splits)
  from splitOn_shorter [OF o] splitOn_shorter [OF c] show ?thesis
    by (simp add: fenceOpen_def fenceClose_def)
qed

text \<open>
  The \<^verbatim>\<open>while ((match = codeBlockRegex.exec(text)) !== null)\<close> loop of
  \<^verbatim>\<open>extractPromptsFromMarkdown\<close>: the state is the rest of the text, the counter
  \<^verbatim>\<open>shotNumber\<close> and the array \<^verbatim>\<open>prompts\<close>. \<open>mk\<close> builds the pushed object (the image and
  the video executor differ in its constant fields only).
\<close>

function markdownLoop ::
  "(nat \<Rightarrow> string \<Rightarrow> workItem) \<Rightarrow> string \<Rightarrow> nat \<Rightarrow> workItem list \<Rightarrow> workItem list" where
  "markdownLoop mk text n prompts =
     (case codeBlockRegex_exec text of
        None \<Rightarrow> prompts
      | Some (group1, rest) \<Rightarrow>
          (let blockContent = trim group1
           in if skipBlock blockContent then markdownLoop mk rest n prompts
              else markdownLoop mk rest (n + 1) (prompts @ [mk n blockContent])))"
  by pat_completeness auto
termination
  by (relation "measure (\<lambda>(mk, text, n, prompts). length text)")
     (auto dest: codeBlockRegex_exec_shorter)

declare markdownLoop.simps [simp del]

text \<open>\<^verbatim>\<open>extractPromptsFromMarkdown\<close> of image-gen.ts.\<close>

definition imageMarkdownItem :: "nat \<Rightarrow> string \<Rightarrow> workItem" where
  "imageMarkdownItem n blockContent =
     \<lparr>shotNumber = JNum (int n), prompt = JStr blockContent, sourceImage = JUndefined,
      aspectRatio = JStr ''4:3'', style = JStr ''cinematic''\<rparr>"

definition extractPromptsFromMarkdown :: "string \<Rightarrow> workItem list" where
  "extractPromptsFromMarkdown text = markdownLoop imageMarkdownItem text 1 []"

text \<open>\<^verbatim>\<open>extractPromptsFromMarkdown\<close> of the video executors.\<close>

definition videoMarkdownItem :: "nat \<Rightarrow> string \<Rightarrow> workItem" where
  "videoMarkdownItem n blockContent =
     \<lparr>shotNumber = JNum (int n), prompt = JStr blockContent, sourceImage = JUndefined,
      aspectRatio = JStr ''16:9'', style = JUndefined\<rparr>"

definition extractPromptsFromMarkdown_video :: "string \<Rightarrow> workItem list" where
  "extractPromptsFromMarkdown_video text = markdownLoop videoMarkdownItem text 1 []"

section \<open>Output normalizers\<close>

text \<open>\<^verbatim>\<open>Array.isArray(obj.k)\<close> for a plain object, with the elements when it holds.\<close>

definition arrayProp :: "(string \<times> jsval) list \<Rightarrow> string \<Rightarrow> jsval list option" where
  "arrayProp kvs k = (case map_of kvs k of Some (JArr xs) \<Rightarrow> Some xs | _ \<Rightarrow> None)"

text \<open>
  The test of the \<^verbatim>\<open>for (const key of Object.keys(lastOutput))\<close> loop:
  \<^verbatim>\<open>Array.isArray(value) && value.length > 0 && typeof value[0] === 'object' && 'prompt' in value[0]\<close>.
  \<^verbatim>\<open>typeof null\<close> is \<^verbatim>\<open>'object'\<close>, so a first element \<^verbatim>\<open>null\<close> reaches \<^verbatim>\<open>in\<close>, which throws.
\<close>

fun looksLikePrompts :: "jsval \<Rightarrow> jsError + bool" where
  "looksLikePrompts (JArr (v0 # vs)) = (if typeofObject v0 then jsIn ''prompt'' v0 else Inr False)"
| "looksLikePrompts v = Inr False"

fun elements :: "jsval \<Rightarrow> jsval list" where
  "elements (JArr xs) = xs"
| "elements v = []"

text \<open>
  The loop over \<^verbatim>\<open>Object.keys(lastOutput)\<close>: \<open>Some\<close> of the mapped array at the first
  property that passes the test, \<open>None\<close> when the loop ends without returning.
\<close>

fun scanProperties ::
  "(jsval \<Rightarrow> nat \<Rightarrow> jsError + workItem) \<Rightarrow> (string \<times> jsval) list \<Rightarrow> string list
    \<Rightarrow> jsError + workItem list option" where
  "scanProperties f obj [] = Inr None"
| "scanProperties f obj (key # keys) =
     andThen (getProp (JObj obj) key) (\<lambda>value.
     andThen (looksLikePrompts value) (\<lambda>found.
       if found then andThen (mapIndexed f 0 (elements value)) (\<lambda>items. Inr (Some items))
       else scanProperties f obj keys))"

subsection \<open>\<^verbatim>\<open>extractPrompts\<close> (image-gen.ts)\<close>

text \<open>Case 1, the callback of \<^verbatim>\<open>lastOutput.map\<close>.\<close>

definition arrayItem :: "jsval \<Rightarrow> nat \<Rightarrow> jsError + workItem" where
  "arrayItem item index =
     andThen (getProp item ''shotNumber'') (\<lambda>sn.
     andThen (getProp item ''prompt'') (\<lambda>p.
     andThen (if truthy p then Inr p else andThen (callToString item) (\<lambda>s. Inr (JStr s))) (\<lambda>p'.
     andThen (getProp item ''aspectRatio'') (\<lambda>ar.
     andThen (getProp item ''style'') (\<lambda>st.
       Inr \<lparr>shotNumber = jsOr sn (indexPlus1 index), prompt = p', sourceImage = JUndefined,
            aspectRatio = jsOr ar (JStr ''4:3''), style = jsOr st (JStr ''cinematic'')\<rparr>)))))"

text \<open>Cases 2 and 3, the callback of \<^verbatim>\<open>imagePrompts.map\<close> and of \<^verbatim>\<open>value.map\<close>.\<close>

definition promptItem :: "jsval \<Rightarrow> nat \<Rightarrow> jsError + workItem" where
  "promptItem item index =
     andThen (getProp item ''shotNumber'') (\<lambda>sn.
     andThen (getProp item ''prompt'') (\<lambda>p.
     andThen (getProp item ''aspectRatio'') (\<lambda>ar.
     andThen (getProp item ''style'') (\<lambda>st.
       Inr \<lparr>shotNumber = jsOr sn (indexPlus1 index), prompt = p, sourceImage = JUndefined,
            aspectRatio = jsOr ar (JStr ''4:3''), style = jsOr st (JStr ''cinematic'')\<rparr>))))"

definition wholeStringItem :: "string \<Rightarrow> workItem" where
  "wholeStringItem s =
     \<lparr>shotNumber = JNum 1, prompt = JStr s, sourceImage = JUndefined,
      aspectRatio = JStr ''4:3'', style = JStr ''cinematic''\<rparr>"

definition defaultItem :: workItem where
  "defaultItem =
     \<lparr>shotNumber = JNum 1,
      prompt = JStr ''cinematic photo, professional lighting, 4:3 aspect ratio'',
      sourceImage = JUndefined, aspectRatio = JStr ''4:3'', style = JStr ''cinematic''\<rparr>"

text \<open>
  The function, by the shape of \<^verbatim>\<open>lastOutput\<close>. An array returns in Case 1. An object is
  the only value for which \<^verbatim>\<open>lastOutput && typeof lastOutput === 'object'\<close> holds after
  Case 1; when neither Case 2 nor Case 3 returns, it is not a string and gets the default.
\<close>

fun extractPrompts :: "jsval \<Rightarrow> jsError + workItem list" where
  "extractPrompts (JArr xs) = mapIndexed arrayItem 0 xs"
| "extractPrompts (JObj kvs) =
     (case arrayProp kvs ''imagePrompts'' of
        Some ps \<Rightarrow> mapIndexed promptItem 0 ps
      | None \<Rightarrow>
          andThen (scanProperties promptItem kvs (map fst kvs)) (\<lambda>found.
            case found of
              Some items \<Rightarrow> Inr items
            | None \<Rightarrow>
                if hasOwn kvs ''prompt'' then
                  andThen (promptItem (JObj kvs) 0) (\<lambda>item. Inr [item])
                else Inr [defaultItem]))"
| "extractPrompts (JStr s) =
     (if strIncludes s backticks \<and> extractPromptsFromMarkdown s \<noteq> []
      then Inr (extractPromptsFromMarkdown s)
      else Inr [wholeStringItem s])"
| "extractPrompts v = Inr [defaultItem]"

subsection \<open>\<^verbatim>\<open>extractVideoPrompts\<close> (both video executors)\<close>

text \<open>The template literal \<^verbatim>\<open>`Shot ${index + 1}`\<close>.\<close>

definition shotLabel :: "nat \<Rightarrow> jsval" where
  "shotLabel index = JStr (''Shot '' @ showNat (index + 1))"

text \<open>Case 1: \<^verbatim>\<open>.filter((img) => img.success && img.localPath)\<close>.\<close>

definition keepImage :: "jsval \<Rightarrow> jsError + bool" where
  "keepImage img =
     andThen (getProp img ''success'') (\<lambda>s.
       if truthy s then andThen (getProp img ''localPath'') (\<lambda>lp. Inr (truthy lp))
       else Inr False)"

fun filterImages :: "jsval list \<Rightarrow> jsError + jsval list" where
  "filterImages [] = Inr []"
| "filterImages (img # imgs) =
     andThen (keepImage img) (\<lambda>keep.
     andThen (filterImages imgs) (\<lambda>rest. Inr (if keep then img # rest else rest)))"

text \<open>Case 1: the callback of \<^verbatim>\<open>.map\<close> on the kept entries.\<close>

definition imageEntryItem :: "jsval \<Rightarrow> nat \<Rightarrow> jsError + workItem" where
  "imageEntryItem img index =
     andThen (getProp img ''shotNumber'') (\<lambda>sn.
     andThen (getProp img ''originalPrompt'') (\<lambda>p.
     andThen (getProp img ''localPath'') (\<lambda>lp.
     andThen (getProp img ''aspectRatio'') (\<lambda>ar.
       Inr \<lparr>shotNumber = jsOr sn (indexPlus1 index), prompt = jsOr p (shotLabel index),
            sourceImage = lp, aspectRatio = jsOr ar (JStr ''16:9''), style = JUndefined\<rparr>))))"

text \<open>Case 2, the callback of \<^verbatim>\<open>lastOutput.map\<close>.\<close>

definition videoArrayItem :: "jsval \<Rightarrow> nat \<Rightarrow> jsError + workItem" where
  "videoArrayItem item index =
     andThen (getProp item ''shotNumber'') (\<lambda>sn.
     andThen (getProp item ''prompt'') (\<lambda>p.
     andThen (if truthy p then Inr p else andThen (callToString item) (\<lambda>s. Inr (JStr s))) (\<lambda>p'.
     andThen (getProp item ''sourceImage'') (\<lambda>si.
     andThen (getProp item ''localPath'') (\<lambda>lp.
     andThen (getProp item ''image'') (\<lambda>im.
     andThen (getProp item ''aspectRatio'') (\<lambda>ar.
       Inr \<lparr>shotNumber = jsOr sn (indexPlus1 index), prompt = p',
            sourceImage = jsOr (jsOr si lp) im,
            aspectRatio = jsOr ar (JStr ''16:9''), style = JUndefined\<rparr>)))))))"

text \<open>Case 3, the callback of \<^verbatim>\<open>imagePrompts.map\<close>; also the single prompt object.\<close>

definition videoPromptItem :: "jsval \<Rightarrow> nat \<Rightarrow> jsError + workItem" where
  "videoPromptItem item index =
     andThen (getProp item ''shotNumber'') (\<lambda>sn.
     andThen (getProp item ''prompt'') (\<lambda>p.
     andThen (getProp item ''sourceImage'') (\<lambda>si.
     andThen (getProp item ''image'') (\<lambda>im.
     andThen (getProp item ''aspectRatio'') (\<lambda>ar.
       Inr \<lparr>shotNumber = jsOr sn (indexPlus1 index), prompt = p,
            sourceImage = jsOr si im,
            aspectRatio = jsOr ar (JStr ''16:9''), style = JUndefined\<rparr>)))))"

text \<open>Case 4, the callback of \<^verbatim>\<open>value.map\<close>.\<close>

definition videoNestedItem :: "jsval \<Rightarrow> nat \<Rightarrow> jsError + workItem" where
  "videoNestedItem item index =
     andThen (getProp item ''shotNumber'') (\<lambda>sn.
     andThen (getProp item ''prompt'') (\<lambda>p.
     andThen (getProp item ''sourceImage'') (\<lambda>si.
     andThen (getProp item ''localPath'') (\<lambda>lp.
     andThen (getProp item ''image'') (\<lambda>im.
     andThen (getProp item ''aspectRatio'') (\<lambda>ar.
       Inr \<lparr>shotNumber = jsOr sn (indexPlus1 index), prompt = p,
            sourceImage = jsOr (jsOr si lp) im,
            aspectRatio = jsOr ar (JStr ''16:9''), style = JUndefined\<rparr>))))))"

definition videoWholeStringItem :: "string \<Rightarrow> workItem" where
  "videoWholeStringItem s =
     \<lparr>shotNumber = JNum 1, prompt = JStr s, sourceImage = JUndefined,
      aspectRatio = JStr ''16:9'', style = JUndefined\<rparr>"

definition videoDefaultItem :: workItem where
  "videoDefaultItem =
     \<lparr>shotNumber = JNum 1, prompt = JStr ''cinematic establishing shot, professional lighting'',
      sourceImage = JUndefined, aspectRatio = JStr ''16:9'', style = JUndefined\<rparr>"

text \<open>
  The function, by the shape of \<^verbatim>\<open>lastOutput\<close>. An array has no property \<^verbatim>\<open>images\<close>, so
  Case 1 passes it on to Case 2.
\<close>

fun extractVideoPrompts :: "jsval \<Rightarrow> jsError + workItem list" where
  "extractVideoPrompts (JArr xs) = mapIndexed videoArrayItem 0 xs"
| "extractVideoPrompts (JObj kvs) =
     (case arrayProp kvs ''images'' of
        Some imgs \<Rightarrow> andThen (filterImages imgs) (mapIndexed imageEntryItem 0)
      | None \<Rightarrow>
         (case arrayProp kvs ''imagePrompts'' of
            Some ps \<Rightarrow> mapIndexed videoPromptItem 0 ps
          | None \<Rightarrow>
              andThen (scanProperties videoNestedItem kvs (map fst kvs)) (\<lambda>found.
                case found of
                  Some items \<Rightarrow> Inr items
                | None \<Rightarrow>
                    if hasOwn kvs ''prompt'' then
                      andThen (videoPromptItem (JObj kvs) 0) (\<lambda>item. Inr [item])
                    else Inr [videoDefaultItem])))"
| "extractVideoPrompts (JStr s) =
     (if strIncludes s backticks \<and> extractPromptsFromMarkdown_video s \<noteq> []
      then Inr (extractPromptsFromMarkdown_video s)
      else Inr [videoWholeStringItem s])"
| "extractVideoPrompts v = Inr [videoDefaultItem]"

section \<open>Numbers and the environment\<close>

text \<open>
  Costs and durations are exact rationals (binary floating point is not modelled).
  \<open>toFixed digits x\<close> is the number that the string \<^verbatim>\<open>x.toFixed(digits)\<close> denotes: the
  multiple of \<open>10 ^ -digits\<close> nearest to \<open>x\<close>, the larger in magnitude on a tie. A cost
  string \<^verbatim>\<open>`$${x.toFixed(d)}`\<close> and a time string \<^verbatim>\<open>`${x.toFixed(1)}s`\<close> are represented
  by that number.
\<close>

definition toFixed :: "nat \<Rightarrow> rat \<Rightarrow> rat" where
  "toFixed digits x =
     (if x < 0 then - 1 else 1) * of_int \<lfloor>\<bar>x\<bar> * 10 ^ digits + 1 / 2\<rfloor> / 10 ^ digits"

text \<open>
  What happens outside the program while item \<open>i\<close> is generated. \<open>Thrown m\<close>: the
  provider call, the download or the file write throws an error whose \<^verbatim>\<open>message\<close> is the
  string \<open>m\<close> (the provider contract: errors expose a message string).
  \<open>UnexpectedOutput\<close>: the call returns something the executor does not accept.
  \<open>Saved\<close>: the asset is returned and stored.
\<close>

datatype runOutcome = Saved | UnexpectedOutput | Thrown string

record environment =
  cwd :: string
  mkdirError :: "string option"
  runOutcome :: "nat \<Rightarrow> runOutcome"
  startTime :: "nat \<Rightarrow> nat"
  timestamp :: "nat \<Rightarrow> nat"
  endTime :: "nat \<Rightarrow> nat"

text \<open>
  What the run does to the outside, in order: a provider request for item \<open>i\<close> with
  its prompt, and a \<^verbatim>\<open>setTimeout\<close> wait in milliseconds.
\<close>

datatype event = ProviderCall nat jsval | Sleep nat

text \<open>\<^verbatim>\<open>path.join(dir, name)\<close>; the normalisation of the joined path is not modelled.\<close>

definition pathJoin :: "string \<Rightarrow> string \<Rightarrow> string" where
  "pathJoin dir name = dir @ ''/'' @ name"

definition ensurePublicDirectory :: "environment \<Rightarrow> string \<Rightarrow> jsError + string" where
  "ensurePublicDirectory env subdir =
     (case mkdirError env of
        Some m \<Rightarrow> Inl (Error m)
      | None \<Rightarrow> Inr (pathJoin (pathJoin (cwd env) ''public'') subdir))"

text \<open>
  \<^verbatim>\<open>prompt.substring(0, 100)\<close> inside a \<^verbatim>\<open>console.log\<close>: only a string has the method. The
  result is the prompt as a string.
\<close>

fun promptSubstring :: "jsval \<Rightarrow> jsError + string" where
  "promptSubstring (JStr s) = Inr s"
| "promptSubstring JUndefined = andThen (getProp JUndefined ''substring'') (\<lambda>_. Inr [])"
| "promptSubstring JNull = andThen (getProp JNull ''substring'') (\<lambda>_. Inr [])"
| "promptSubstring v = Inl (TypeError ''prompt.substring is not a function'')"

text \<open>\<^verbatim>\<open>apiKeys?.replicate || process.env.REPLICATE_API_KEY\<close>, and the test \<^verbatim>\<open>!replicateKey\<close>.\<close>

definition resolveKey :: "string option \<Rightarrow> string option \<Rightarrow> string option" where
  "resolveKey fromApiKeys fromEnv =
     (case fromApiKeys of
        Some k \<Rightarrow> if k \<noteq> [] then Some k else fromEnv
      | None \<Rightarrow> fromEnv)"

definition missingKey :: "string option \<Rightarrow> bool" where
  "missingKey key = (case key of None \<Rightarrow> True | Some k \<Rightarrow> k = [])"

section \<open>Image executor (image-gen.ts)\<close>

datatype fluxModelKey = FluxDev | Flux11Pro | FluxSchnell

fun modelKeyName :: "fluxModelKey \<Rightarrow> string" where
  "modelKeyName FluxDev = ''flux-dev''"
| "modelKeyName Flux11Pro = ''flux-1.1-pro''"
| "modelKeyName FluxSchnell = ''flux-schnell''"

fun replicateId :: "fluxModelKey \<Rightarrow> string" where
  "replicateId FluxDev = ''black-forest-labs/flux-dev''"
| "replicateId Flux11Pro = ''black-forest-labs/flux-1.1-pro''"
| "replicateId FluxSchnell = ''black-forest-labs/flux-schnell''"

fun costPerImage :: "fluxModelKey \<Rightarrow> rat" where
  "costPerImage FluxDev = 25 / 1000"
| "costPerImage Flux11Pro = 4 / 100"
| "costPerImage FluxSchnell = 3 / 1000"

text \<open>
  \<^verbatim>\<open>node.data\<close>: the model of \<^verbatim>\<open>imageGenConfig\<close> and the model of the legacy \<^verbatim>\<open>config\<close>
  (\<open>None\<close> when absent). The inference steps only go into the provider request.
  \<^verbatim>\<open>imageGenConfig.model in FLUX_MODELS\<close> is membership in the three keys of the table
  (names inherited from \<^verbatim>\<open>Object.prototype\<close> are not model names).
\<close>

record imageNodeData =
  imageGenConfig_model :: "string option"
  legacyConfig_model :: "string option"

definition resolveModelKey :: "imageNodeData \<Rightarrow> fluxModelKey" where
  "resolveModelKey d =
     (let new = (case imageGenConfig_model d of None \<Rightarrow> [] | Some m \<Rightarrow> m);
          legacyModel = (case legacyConfig_model d of None \<Rightarrow> [] | Some m \<Rightarrow> m)
      in if new = ''flux-dev'' then FluxDev
         else if new = ''flux-1.1-pro'' then Flux11Pro
         else if new = ''flux-schnell'' then FluxSchnell
         else if legacyModel \<noteq> [] then
           (if strIncludes legacyModel ''flux-schnell'' then FluxSchnell
            else if strIncludes legacyModel ''flux-1.1-pro'' then Flux11Pro
            else FluxDev)
         else FluxDev)"

record imageResult =
  img_shotNumber :: jsval
  img_url :: string
  img_localPath :: string
  img_originalPrompt :: jsval
  img_aspectRatio :: jsval
  img_style :: jsval
  img_model :: string
  img_duration :: rat
  img_estimatedCost :: rat
  img_success :: bool
  img_error :: "string option"

record imageGenOutput =
  images :: "imageResult list"
  totalGenerated :: nat
  totalFailed :: nat
  totalRequested :: nat
  estimatedTotalCost :: rat
  provider :: string
  model :: string
  modelId :: string
  savedToPublic :: bool
  publicPath :: string

record imageLoopState =
  results :: "imageResult list"
  successCount :: nat
  failCount :: nat
  trace :: "event list"

text \<open>
  The body of the \<^verbatim>\<open>try\<close> for item \<open>i\<close>, after the request is sent: \<open>Inl\<close> is what the
  \<^verbatim>\<open>catch\<close> receives, \<open>Inr\<close> the pushed record.
\<close>

definition imageTry ::
  "fluxModelKey \<Rightarrow> string \<Rightarrow> environment \<Rightarrow> nat \<Rightarrow> workItem \<Rightarrow> jsError + imageResult" where
  "imageTry modelKey publicDir env i item =
     (case runOutcome env i of
        Thrown m \<Rightarrow> Inl (Error m)
      | UnexpectedOutput \<Rightarrow> Inl (Error ''Unexpected output format from Replicate'')
      | Saved \<Rightarrow>
          andThen (jsToString (jsOr (shotNumber item) (indexPlus1 i))) (\<lambda>shot.
            let filename = ''shot-'' @ shot @ ''-'' @ showNat (timestamp env i) @ ''.png'';
                filepath = pathJoin publicDir filename;
                publicUrl = ''/generated-images/'' @ filename;
                duration = toFixed 1 ((of_int (int (endTime env i)) - of_int (int (startTime env i))) / 1000)
            in Inr \<lparr>img_shotNumber = shotNumber item, img_url = publicUrl,
                    img_localPath = filepath, img_originalPrompt = prompt item,
                    img_aspectRatio = jsOr (aspectRatio item) (JStr ''4:3''),
                    img_style = style item, img_model = replicateId modelKey,
                    img_duration = duration,
                    img_estimatedCost = toFixed 4 (costPerImage modelKey),
                    img_success = True, img_error = None\<rparr>))"

text \<open>The record pushed by the \<^verbatim>\<open>catch\<close>.\<close>

definition failedImage :: "fluxModelKey \<Rightarrow> workItem \<Rightarrow> string \<Rightarrow> imageResult" where
  "failedImage modelKey item m =
     \<lparr>img_shotNumber = shotNumber item, img_url = [], img_localPath = [],
      img_originalPrompt = prompt item,
      img_aspectRatio = jsOr (aspectRatio item) (JStr ''4:3''),
      img_style = style item, img_model = replicateId modelKey,
      img_duration = 0, img_estimatedCost = 0,
      img_success = False, img_error = Some m\<rparr>"

text \<open>
  One iteration of the \<^verbatim>\<open>for\<close> loop, \<open>n\<close> being \<^verbatim>\<open>promptsToGenerate.length\<close>. The two
  \<^verbatim>\<open>console.log\<close> lines before the \<^verbatim>\<open>try\<close> convert the shot number to a string and call
  \<^verbatim>\<open>prompt.substring\<close>: a throw there leaves the executor.
\<close>

definition imageIteration ::
  "fluxModelKey \<Rightarrow> string \<Rightarrow> environment \<Rightarrow> nat \<Rightarrow> nat \<Rightarrow> workItem \<Rightarrow> imageLoopState
    \<Rightarrow> jsError + imageLoopState" where
  "imageIteration modelKey publicDir env n i item st =
     andThen (jsToString (shotNumber item)) (\<lambda>_.
     andThen (promptSubstring (prompt item)) (\<lambda>p.
       let truncatedPrompt = substring0 4000 p;
           called = trace st @ [ProviderCall i (JStr truncatedPrompt)]
       in case imageTry modelKey publicDir env i item of
            Inr record \<Rightarrow>
              Inr (st\<lparr>results := results st @ [record],
                      successCount := successCount st + 1,
                      trace := called @ (if i < n - 1 then [Sleep 1000] else [])\<rparr>)
          | Inl error \<Rightarrow>
              Inr (st\<lparr>results := results st @ [failedImage modelKey item (message error)],
                      failCount := failCount st + 1,
                      trace := called @
                        (if strIncludes (message error) ''rate limit'' then [Sleep 10000]
                         else [])\<rparr>)))"

fun imageLoop ::
  "fluxModelKey \<Rightarrow> string \<Rightarrow> environment \<Rightarrow> nat \<Rightarrow> nat \<Rightarrow> workItem list \<Rightarrow> imageLoopState
    \<Rightarrow> jsError + imageLoopState" where
  "imageLoop modelKey publicDir env n i [] st = Inr st"
| "imageLoop modelKey publicDir env n i (item # items) st =
     andThen (imageIteration modelKey publicDir env n i item st)
       (imageLoop modelKey publicDir env n (i + 1) items)"

definition MAX_IMAGES :: nat where
  "MAX_IMAGES = 20"

text \<open>
  The executor from the extracted prompts on (the safety limit, the loop, the totals):
  the output and the trace of the run.
\<close>

definition generateImages ::
  "fluxModelKey \<Rightarrow> string \<Rightarrow> environment \<Rightarrow> workItem list
    \<Rightarrow> jsError + imageGenOutput \<times> event list" where
  "generateImages modelKey publicDir env prompts =
     (let promptsToGenerate = take MAX_IMAGES prompts
      in andThen
           (imageLoop modelKey publicDir env (length promptsToGenerate) 0 promptsToGenerate
              \<lparr>results = [], successCount = 0, failCount = 0, trace = []\<rparr>)
           (\<lambda>st.
              let totalCost = toFixed 4 (of_int (int (successCount st)) * costPerImage modelKey)
              in Inr (\<lparr>images = results st, totalGenerated = successCount st,
                       totalFailed = failCount st,
                       totalRequested = length promptsToGenerate,
                       estimatedTotalCost = totalCost, provider = ''replicate'',
                       model = modelKeyName modelKey, modelId = replicateId modelKey,
                       savedToPublic = True, publicPath = ''/generated-images/''\<rparr>,
                      trace st)))"

definition executeImageGenNode ::
  "imageNodeData \<Rightarrow> jsval \<Rightarrow> string option \<Rightarrow> string option \<Rightarrow> environment
    \<Rightarrow> jsError + imageGenOutput \<times> event list" where
  "executeImageGenNode nodeData lastOutput apiKey envKey env =
     (if missingKey (resolveKey apiKey envKey) then
        Inl (Error ''REPLICATE_API_KEY not found. Please add it to your .env.local file or provide it via API keys configuration.'')
      else
        andThen (extractPrompts lastOutput) (\<lambda>prompts.
        andThen (ensurePublicDirectory env ''generated-images'') (\<lambda>publicDir.
          generateImages (resolveModelKey nodeData) publicDir env prompts)))"

section \<open>Video executors\<close>

text \<open>
  The repository holds two video executors with the same function names: one calls
  Replicate (MiniMax by default), the other Runway (Gen-3 Alpha Turbo by default, with
  status polling inside \<^verbatim>\<open>generateSingleClip\<close>). \<^verbatim>\<open>extractVideoPrompts\<close>,
  \<^verbatim>\<open>extractPromptsFromMarkdown\<close> and \<^verbatim>\<open>stitchClipsWithFFmpeg\<close> are the same text in both.
  The differences are the default model, the cost per second and the lookup of approved
  images before the normalizer.
\<close>

datatype videoExecutor = ReplicateExecutor | RunwayExecutor

text \<open>
  \<^verbatim>\<open>node.data.videoGenConfig\<close>; the ratio and the input mode only shape the provider
  request.
\<close>

record videoGenConfig =
  config_model :: "string option"
  config_duration :: "rat option"

definition defaultVideoModel :: "videoExecutor \<Rightarrow> string" where
  "defaultVideoModel ex = (case ex of ReplicateExecutor \<Rightarrow> ''minimax'' | RunwayExecutor \<Rightarrow> ''gen3a_turbo'')"

text \<open>\<^verbatim>\<open>config.model || default\<close> and \<^verbatim>\<open>config.duration || 5\<close>.\<close>

definition resolveVideoModel :: "videoExecutor \<Rightarrow> videoGenConfig \<Rightarrow> string" where
  "resolveVideoModel ex config =
     (case config_model config of
        Some m \<Rightarrow> if m \<noteq> [] then m else defaultVideoModel ex
      | None \<Rightarrow> defaultVideoModel ex)"

definition resolveDuration :: "videoGenConfig \<Rightarrow> rat" where
  "resolveDuration config =
     (case config_duration config of
        Some d \<Rightarrow> if d \<noteq> 0 then d else 5
      | None \<Rightarrow> 5)"

definition costPerSecond :: "videoExecutor \<Rightarrow> string \<Rightarrow> rat" where
  "costPerSecond ex m =
     (case ex of
        ReplicateExecutor \<Rightarrow> if m = ''gen3a_turbo'' then 5 / 100 else 25 / 1000
      | RunwayExecutor \<Rightarrow> 5 / 100)"

record videoClipResult =
  clip_shotNumber :: jsval
  clip_url :: string
  clip_localPath :: string
  clip_originalPrompt :: jsval
  clip_sourceImage :: jsval
  clip_duration :: rat
  clip_model :: string
  clip_generationTime :: rat
  clip_estimatedCost :: rat
  clip_success :: bool
  clip_error :: "string option"

record finalVideo =
  fv_url :: string
  fv_localPath :: string
  fv_duration :: rat
  fv_format :: string

datatype stitchingStatus = StitchSuccess | StitchFailed | StitchSkipped

record videoGenOutput =
  clips :: "videoClipResult list"
  finalVideo :: "finalVideo option"
  video_totalGenerated :: nat
  video_totalFailed :: nat
  video_estimatedTotalCost :: rat
  video_provider :: string
  stitchingStatus :: stitchingStatus

text \<open>
  The media tool: called with the text of the concat list, it ends or reports an error
  (a failure to write the list file counts as one). \<open>stitchTimestamp\<close> is the
  \<^verbatim>\<open>Date.now()\<close> that names the list file and the output file.
\<close>

datatype toolOutcome = ToolEnd | ToolError string

record stitchEnvironment =
  ffmpeg :: "string \<Rightarrow> toolOutcome"
  stitchTimestamp :: nat

definition failedClip :: "jsval \<Rightarrow> jsval \<Rightarrow> jsval \<Rightarrow> string \<Rightarrow> string \<Rightarrow> videoClipResult" where
  "failedClip shot p source m msg =
     \<lparr>clip_shotNumber = shot, clip_url = [], clip_localPath = [],
      clip_originalPrompt = p, clip_sourceImage = source, clip_duration = 0,
      clip_model = m, clip_generationTime = 0, clip_estimatedCost = 0,
      clip_success = False, clip_error = Some msg\<rparr>"

text \<open>
  The body of the \<^verbatim>\<open>try\<close> of \<^verbatim>\<open>generateSingleClip\<close>: the provider interaction (reading the
  source image, the request, for Runway the polling, the download) is the outcome for
  item \<open>i\<close>; then the record is built. The Runway executor prices every second at 0.05.
\<close>

definition clipTry ::
  "videoExecutor \<Rightarrow> string \<Rightarrow> environment \<Rightarrow> nat \<Rightarrow> jsval \<Rightarrow> jsval \<Rightarrow> jsval \<Rightarrow> string \<Rightarrow> rat
    \<Rightarrow> jsError + videoClipResult" where
  "clipTry ex outputDir env i p shot source m duration =
     (case runOutcome env i of
        Thrown msg \<Rightarrow> Inl (Error msg)
      | UnexpectedOutput \<Rightarrow>
          Inl (Error (case ex of
                        ReplicateExecutor \<Rightarrow> ''Unexpected output format from Replicate''
                      | RunwayExecutor \<Rightarrow> ''No output URL returned from Runway''))
      | Saved \<Rightarrow>
          andThen (jsToString (jsOr shot (JNum 1))) (\<lambda>shotText.
            let filename = ''clip-'' @ shotText @ ''-'' @ showNat (timestamp env i) @ ''.mp4'';
                localPath = pathJoin outputDir filename;
                publicUrl = ''/generated-videos/'' @ filename;
                generationTime =
                  toFixed 1 ((of_int (int (endTime env i)) - of_int (int (startTime env i))) / 1000);
                estimatedCost = toFixed 2 (duration * costPerSecond ex m)
            in Inr \<lparr>clip_shotNumber = shot, clip_url = publicUrl,
                    clip_localPath = localPath, clip_originalPrompt = p,
                    clip_sourceImage = source, clip_duration = duration, clip_model = m,
                    clip_generationTime = generationTime,
                    clip_estimatedCost = estimatedCost,
                    clip_success = True, clip_error = None\<rparr>))"

text \<open>
  \<^verbatim>\<open>generateSingleClip\<close>: the two \<^verbatim>\<open>console.log\<close> lines before its \<^verbatim>\<open>try\<close> may throw
  (\<open>Inl\<close>); its \<^verbatim>\<open>catch\<close> turns every error of the \<^verbatim>\<open>try\<close> into a failed record. The
  model and the duration arrive resolved from the executor, so the defaults
  \<^verbatim>\<open>options.model || ...\<close> and \<^verbatim>\<open>options.duration || 5\<close> leave them as they are.
\<close>

definition generateSingleClip ::
  "videoExecutor \<Rightarrow> string \<Rightarrow> environment \<Rightarrow> nat \<Rightarrow> jsval \<Rightarrow> jsval \<Rightarrow> jsval \<Rightarrow> string \<Rightarrow> rat
    \<Rightarrow> jsError + videoClipResult" where
  "generateSingleClip ex outputDir env i p shot source m duration =
     andThen (jsToString shot) (\<lambda>_.
     andThen (promptSubstring p) (\<lambda>_.
       case clipTry ex outputDir env i p shot source m duration of
         Inr clip \<Rightarrow> Inr clip
       | Inl error \<Rightarrow> Inr (failedClip shot p source m (message error))))"

subsection \<open>\<^verbatim>\<open>stitchClipsWithFFmpeg\<close>\<close>

text \<open>\<^verbatim>\<open>successfulClips.map(clip => `file '${clip.localPath}'`).join('\n')\<close>\<close>

fun joinLines :: "string list \<Rightarrow> string" where
  "joinLines [] = []"
| "joinLines [l] = l"
| "joinLines (l # ls) = l @ [CHR 0x0A] @ joinLines ls"

definition concatContent :: "videoClipResult list \<Rightarrow> string" where
  "concatContent successfulClips =
     joinLines (map (\<lambda>clip. ''file '' @ quoted (clip_localPath clip)) successfulClips)"

text \<open>\<open>Inr None\<close> is \<^verbatim>\<open>null\<close>, \<open>Inl\<close> the rejected promise.\<close>

definition stitchClipsWithFFmpeg ::
  "stitchEnvironment \<Rightarrow> videoClipResult list \<Rightarrow> string \<Rightarrow> jsError + finalVideo option" where
  "stitchClipsWithFFmpeg tool allClips outputDir =
     (let successfulClips = filter (\<lambda>c. clip_success c \<and> clip_localPath c \<noteq> []) allClips
      in if length successfulClips = 0 then Inr None
         else if length successfulClips = 1 then
           Inr (Some \<lparr>fv_url = clip_url (successfulClips ! 0),
                      fv_localPath = clip_localPath (successfulClips ! 0),
                      fv_duration = clip_duration (successfulClips ! 0),
                      fv_format = ''mp4''\<rparr>)
         else
           (let outputFilename = ''final-video-'' @ showNat (stitchTimestamp tool) @ ''.mp4'';
                outputPath = pathJoin outputDir outputFilename;
                publicUrl = ''/generated-videos/'' @ outputFilename
            in case ffmpeg tool (concatContent successfulClips) of
                 ToolError msg \<Rightarrow> Inl (Error msg)
               | ToolEnd \<Rightarrow>
                   Inr (Some \<lparr>fv_url = publicUrl, fv_localPath = outputPath,
                              fv_duration =
                                foldl (\<lambda>sum clip. sum + clip_duration clip) 0 successfulClips,
                              fv_format = ''mp4''\<rparr>)))"

subsection \<open>\<^verbatim>\<open>executeVideoGenNode\<close>\<close>

text \<open>The callback for \<^verbatim>\<open>approvedImages\<close> and \<^verbatim>\<open>selectedImages\<close> (Replicate executor).\<close>

definition approvedItem :: "jsval \<Rightarrow> nat \<Rightarrow> jsError + workItem" where
  "approvedItem img index =
     andThen (getProp img ''shotNumber'') (\<lambda>sn.
     andThen (getProp img ''originalPrompt'') (\<lambda>p.
     andThen (getProp img ''localPath'') (\<lambda>lp.
       Inr \<lparr>shotNumber = jsOr sn (indexPlus1 index), prompt = jsOr p (shotLabel index),
            sourceImage = lp, aspectRatio = JStr ''16:9'', style = JUndefined\<rparr>)))"

text \<open>
  The prompts of the run. The Replicate executor first looks for \<^verbatim>\<open>approvedImages\<close> and
  \<^verbatim>\<open>selectedImages\<close> on an object; the Runway executor calls the normalizer directly.
\<close>

definition videoPrompts :: "videoExecutor \<Rightarrow> jsval \<Rightarrow> jsError + workItem list" where
  "videoPrompts ex lastOutput =
     (case (ex, lastOutput) of
        (ReplicateExecutor, JObj kvs) \<Rightarrow>
          (case arrayProp kvs ''approvedImages'' of
             Some imgs \<Rightarrow> mapIndexed approvedItem 0 imgs
           | None \<Rightarrow>
              (case arrayProp kvs ''selectedImages'' of
                 Some imgs \<Rightarrow> mapIndexed approvedItem 0 imgs
               | None \<Rightarrow> extractVideoPrompts lastOutput))
      | _ \<Rightarrow> extractVideoPrompts lastOutput)"

record videoLoopState =
  clipResults :: "videoClipResult list"
  clipSuccessCount :: nat
  clipFailCount :: nat
  clipTrace :: "event list"

text \<open>
  One iteration of the \<^verbatim>\<open>for\<close> loop. The \<^verbatim>\<open>console.log\<close> before the \<^verbatim>\<open>try\<close> converts
  the shot number to a string. \<^verbatim>\<open>generateSingleClip\<close> returns a record for every
  provider failure, so the \<^verbatim>\<open>catch\<close> of the loop only receives what
  \<^verbatim>\<open>generateSingleClip\<close> throws before its own \<^verbatim>\<open>try\<close>.
\<close>

definition videoIteration ::
  "videoExecutor \<Rightarrow> string \<Rightarrow> environment \<Rightarrow> string \<Rightarrow> rat \<Rightarrow> nat \<Rightarrow> nat \<Rightarrow> workItem
    \<Rightarrow> videoLoopState \<Rightarrow> jsError + videoLoopState" where
  "videoIteration ex outputDir env m duration n i item st =
     andThen (jsToString (shotNumber item)) (\<lambda>_.
       case generateSingleClip ex outputDir env i (prompt item) (shotNumber item)
              (sourceImage item) m duration of
         Inr clip \<Rightarrow>
           Inr (st\<lparr>clipResults := clipResults st @ [clip],
                   clipSuccessCount := clipSuccessCount st + (if clip_success clip then 1 else 0),
                   clipFailCount := clipFailCount st + (if clip_success clip then 0 else 1),
                   clipTrace := clipTrace st @ [ProviderCall i (prompt item)] @
                     (if i < n - 1 then [Sleep 2000] else [])\<rparr>)
       | Inl error \<Rightarrow>
           Inr (st\<lparr>clipResults := clipResults st @
                     [failedClip (shotNumber item) (prompt item) (sourceImage item) m
                        (message error)],
                   clipFailCount := clipFailCount st + 1,
                   clipTrace := clipTrace st @
                     (if strIncludes (message error) ''rate limit'' \<or>
                         strIncludes (message error) ''429''
                      then [Sleep 30000] else [])\<rparr>))"

fun videoLoop ::
  "videoExecutor \<Rightarrow> string \<Rightarrow> environment \<Rightarrow> string \<Rightarrow> rat \<Rightarrow> nat \<Rightarrow> nat \<Rightarrow> workItem list
    \<Rightarrow> videoLoopState \<Rightarrow> jsError + videoLoopState" where
  "videoLoop ex outputDir env m duration n i [] st = Inr st"
| "videoLoop ex outputDir env m duration n i (item # items) st =
     andThen (videoIteration ex outputDir env m duration n i item st)
       (videoLoop ex outputDir env m duration n (i + 1) items)"

definition MAX_CLIPS :: nat where
  "MAX_CLIPS = 10"

text \<open>
  The stitching step of the executor: the final video and the status, from the clips
  and \<^verbatim>\<open>successCount\<close>.
\<close>

definition stitchStep ::
  "stitchEnvironment \<Rightarrow> videoClipResult list \<Rightarrow> nat \<Rightarrow> string
    \<Rightarrow> finalVideo option \<times> stitchingStatus" where
  "stitchStep tool allClips count outputDir =
     (if count > 0 then
        (case stitchClipsWithFFmpeg tool allClips outputDir of
           Inr (Some stitchResult) \<Rightarrow> (Some stitchResult, StitchSuccess)
         | Inr None \<Rightarrow> (None, StitchSkipped)
         | Inl error \<Rightarrow> (None, StitchFailed))
      else (None, StitchSkipped))"

text \<open>The executor from the prompts on: the output and the trace of the run.\<close>

definition generateClips ::
  "videoExecutor \<Rightarrow> videoGenConfig \<Rightarrow> string \<Rightarrow> environment \<Rightarrow> stitchEnvironment
    \<Rightarrow> workItem list \<Rightarrow> jsError + videoGenOutput \<times> event list" where
  "generateClips ex config outputDir env tool prompts =
     (let m = resolveVideoModel ex config;
          duration = resolveDuration config;
          promptsToGenerate = take MAX_CLIPS prompts
      in andThen
           (videoLoop ex outputDir env m duration (length promptsToGenerate) 0
              promptsToGenerate
              \<lparr>clipResults = [], clipSuccessCount = 0, clipFailCount = 0, clipTrace = []\<rparr>)
           (\<lambda>st.
              let (final, status) =
                    stitchStep tool (clipResults st) (clipSuccessCount st) outputDir;
                  totalVideoDuration =
                    foldl (\<lambda>sum c. sum + clip_duration c) 0
                      (filter clip_success (clipResults st));
                  totalCost = toFixed 2 (totalVideoDuration * costPerSecond ex m)
              in Inr (\<lparr>clips = clipResults st, finalVideo = final,
                       video_totalGenerated = clipSuccessCount st,
                       video_totalFailed = clipFailCount st,
                       video_estimatedTotalCost = totalCost,
                       video_provider =
                         (case ex of ReplicateExecutor \<Rightarrow> ''replicate''
                          | RunwayExecutor \<Rightarrow> ''runway''),
                       stitchingStatus = status\<rparr>,
                      clipTrace st)))"

definition executeVideoGenNode ::
  "videoExecutor \<Rightarrow> videoGenConfig \<Rightarrow> jsval \<Rightarrow> string option \<Rightarrow> string option \<Rightarrow> environment
    \<Rightarrow> stitchEnvironment \<Rightarrow> jsError + videoGenOutput \<times> event list" where
  "executeVideoGenNode ex config lastOutput apiKey envKey env tool =
     (if missingKey (resolveKey apiKey envKey) then
        Inl (Error (case ex of
                      ReplicateExecutor \<Rightarrow> ''REPLICATE_API_KEY not found. Please add it to your .env.local file or provide it via API keys configuration.''
                    | RunwayExecutor \<Rightarrow> ''RUNWAYML_API_SECRET not found. Please add it to your .env.local file or provide it via API keys configuration.''))
      else
        andThen (videoPrompts ex lastOutput) (\<lambda>prompts.
        andThen (ensurePublicDirectory env ''generated-videos'') (\<lambda>outputDir.
          generateClips ex config outputDir env tool prompts)))"

section \<open>Definitions used to state the properties\<close>





subsection \<open>Inputs\<close>






section \<open>Markdown extraction: properties\<close>








section \<open>Fences with a language tag\<close>






section \<open>Normalizers: properties\<close>

text \<open>\<^verbatim>\<open>v.k\<close> where it does not throw.\<close>

definition propOf :: "jsval \<Rightarrow> string \<Rightarrow> jsval" where
  "propOf v k = (case getProp v k of Inr x \<Rightarrow> x | Inl e \<Rightarrow> JUndefined)"

text \<open>
  The first case of the specification, in its words: an entry of \<^verbatim>\<open>images\<close> is kept when
  its \<^verbatim>\<open>success\<close> and its \<^verbatim>\<open>localPath\<close> are truthy (for a well-typed entry: \<^verbatim>\<open>success\<close>
  is \<^verbatim>\<open>true\<close> and the local path is not empty), and the entry at position \<open>index\<close> of
  the kept ones gives the work item \<open>entryWorkItem\<close>.
\<close>

definition keptEntry :: "jsval \<Rightarrow> bool" where
  "keptEntry img = (truthy (propOf img ''success'') \<and> truthy (propOf img ''localPath''))"

definition entryWorkItem :: "nat \<Rightarrow> jsval \<Rightarrow> workItem" where
  "entryWorkItem index img =
     \<lparr>shotNumber = (if truthy (propOf img ''shotNumber'') then propOf img ''shotNumber''
                    else JNum (int index + 1)),
      prompt = (if truthy (propOf img ''originalPrompt'') then propOf img ''originalPrompt''
                else JStr (''Shot '' @ showNat (index + 1))),
      sourceImage = propOf img ''localPath'',
      aspectRatio = (if truthy (propOf img ''aspectRatio'') then propOf img ''aspectRatio''
                     else JStr ''16:9''),
      style = JUndefined\<rparr>"

text \<open>
  An output of the image executor: two successful images and a failed one. The second
  successful image has lost its prompt and its shot number.
\<close>

definition batchImages :: "jsval list" where
  "batchImages =
     [JObj [(''shotNumber'', JNum 4), (''url'', JStr ''/generated-images/shot-4-17.png''),
            (''localPath'', JStr ''/app/public/generated-images/shot-4-17.png''),
            (''originalPrompt'', JStr ''a red kite over dunes''),
            (''aspectRatio'', JStr ''4:3''), (''success'', JBool True)],
      JObj [(''shotNumber'', JNum 5), (''url'', JStr []), (''localPath'', JStr []),
            (''originalPrompt'', JStr ''a blue kite over dunes''),
            (''success'', JBool False), (''error'', JStr ''timeout'')],
      JObj [(''localPath'', JStr ''/app/public/generated-images/shot-3-19.png''),
            (''originalPrompt'', JStr []), (''success'', JBool True)]]"

definition imageBatchEntries :: "(string \<times> jsval) list" where
  "imageBatchEntries =
     [(''images'', JArr batchImages), (''totalGenerated'', JNum 2), (''totalFailed'', JNum 1),
      (''totalRequested'', JNum 3), (''provider'', JStr ''replicate'')]"

text \<open>The same with other shapes around it: an \<^verbatim>\<open>imagePrompts\<close> array and a \<^verbatim>\<open>prompt\<close>.\<close>

definition mixedEntries :: "(string \<times> jsval) list" where
  "mixedEntries =
     (''imagePrompts'', JArr [JObj [(''prompt'', JStr ''from the planning stage'')]]) #
     (''prompt'', JStr ''a single prompt'') # imageBatchEntries"

definition batchWorkItems :: "workItem list" where
  "batchWorkItems =
     [\<lparr>shotNumber = JNum 4, prompt = JStr ''a red kite over dunes'',
       sourceImage = JStr ''/app/public/generated-images/shot-4-17.png'',
       aspectRatio = JStr ''4:3'', style = JUndefined\<rparr>,
      \<lparr>shotNumber = JNum 2, prompt = JStr ''Shot 2'',
       sourceImage = JStr ''/app/public/generated-images/shot-3-19.png'',
       aspectRatio = JStr ''16:9'', style = JUndefined\<rparr>]"

lemma getProp_propOf: "\<not> nullish v \<Longrightarrow> getProp v k = Inr (propOf v k)"
  by (cases v) (simp_all add: propOf_def)

lemma getProp_nullish: "nullish v \<Longrightarrow> isl (getProp v k)"
  by (cases v) simp_all

lemma mapIndexed_total:
  assumes "\<And>x i. x \<in> set xs \<Longrightarrow> f x i = Inr (g i x)"
  shows "mapIndexed f n xs = Inr (map (\<lambda>(i, x). g i x) (enumerate n xs))"
  using assms
proof (induction xs arbitrary: n)
  case Nil
  show ?case by simp
next
  case (Cons x xs)
  have "mapIndexed f (Suc n) xs = Inr (map (\<lambda>(i, x). g i x) (enumerate (Suc n) xs))"
    by (rule Cons.IH) (simp add: Cons.prems)
  moreover have "f x n = Inr (g n x)" by (simp add: Cons.prems)
  ultimately show ?case by simp
qed


lemma keepImage_total: "\<not> nullish img \<Longrightarrow> keepImage img = Inr (keptEntry img)"
  by (simp add: keepImage_def keptEntry_def getProp_propOf)

lemma filterImages_total:
  "list_all (\<lambda>x. \<not> nullish x) imgs \<Longrightarrow> filterImages imgs = Inr (filter keptEntry imgs)"
  by (induction imgs) (simp_all add: keepImage_total)

lemma filterImages_throws: "x \<in> set imgs \<Longrightarrow> nullish x \<Longrightarrow> isl (filterImages imgs)"
proof (induction imgs)
  case Nil
  then show ?case by simp
next
  case (Cons y ys)
  show ?case
  proof (cases "nullish y")
    case True
    then have "isl (keepImage y)"
      by (cases y) (simp_all add: keepImage_def)
    then show ?thesis by (cases "keepImage y") simp_all
  next
    case False
    with Cons.prems have "x \<in> set ys" by auto
    from Cons.IH [OF this Cons.prems(2)] False show ?thesis
      by (cases "filterImages ys") (simp_all add: keepImage_total)
  qed
qed

lemma imageEntryItem_total:
  "\<not> nullish img \<Longrightarrow> imageEntryItem img index = Inr (entryWorkItem index img)"
  by (simp add: imageEntryItem_def entryWorkItem_def getProp_propOf jsOr_def indexPlus1_def
      shotLabel_def)

lemma extractVideoPrompts_images:
  "arrayProp kvs ''images'' = Some imgs \<longrightarrow>
     (list_all (\<lambda>x. \<not> nullish x) imgs \<longrightarrow>
        extractVideoPrompts (JObj kvs) =
          Inr (map (\<lambda>(index, img). entryWorkItem index img) (enumerate 0 (filter keptEntry imgs)))) \<and>
     (\<not> list_all (\<lambda>x. \<not> nullish x) imgs \<longrightarrow> isl (extractVideoPrompts (JObj kvs)))"
proof (intro impI conjI)
  assume arr: "arrayProp kvs ''images'' = Some imgs"
  {
    assume ok: "list_all (\<lambda>x. \<not> nullish x) imgs"
    then have "list_all (\<lambda>x. \<not> nullish x) (filter keptEntry imgs)"
      by (simp add: list_all_iff)
    then have "mapIndexed imageEntryItem 0 (filter keptEntry imgs) =
        Inr (map (\<lambda>(index, img). entryWorkItem index img) (enumerate 0 (filter keptEntry imgs)))"
      by (intro mapIndexed_total imageEntryItem_total) (simp add: list_all_iff)
    with arr ok show "extractVideoPrompts (JObj kvs) =
        Inr (map (\<lambda>(index, img). entryWorkItem index img) (enumerate 0 (filter keptEntry imgs)))"
      by (simp add: filterImages_total)
  }
  {
    assume "\<not> list_all (\<lambda>x. \<not> nullish x) imgs"
    then obtain x where "x \<in> set imgs" "nullish x"
      by (auto simp: list_all_iff)
    then have "isl (filterImages imgs)" by (rule filterImages_throws)
    with arr show "isl (extractVideoPrompts (JObj kvs))"
      by (cases "filterImages imgs") simp_all
  }
qed

text \<open>
  C7 (amended). The first case of the video normalizer applies to an object with an
  \<^verbatim>\<open>images\<close> array, whatever else the object holds: when no entry is \<^verbatim>\<open>null\<close> or
  \<^verbatim>\<open>undefined\<close>, it keeps exactly the entries whose \<^verbatim>\<open>success\<close> and \<^verbatim>\<open>localPath\<close> are
  truthy, in order, and maps the entry at position \<open>index\<close> of the kept ones to a work
  item whose source image is the local path, whose prompt is \<^verbatim>\<open>originalPrompt\<close> (or
  \<^verbatim>\<open>Shot index+1\<close> when that is empty or absent) and whose shot number defaults to
  \<open>index + 1\<close>; an entry that is \<^verbatim>\<open>null\<close> or \<^verbatim>\<open>undefined\<close> makes it throw.
\<close>

theorem video_normalizer_images_case_first:
  "arrayProp kvs ''images'' = Some imgs \<longrightarrow>
     (list_all (\<lambda>x. \<not> nullish x) imgs \<longrightarrow>
        extractVideoPrompts (JObj kvs) =
          Inr (map (\<lambda>(index, img). entryWorkItem index img) (enumerate 0 (filter keptEntry imgs)))) \<and>
     (\<not> list_all (\<lambda>x. \<not> nullish x) imgs \<longrightarrow> isl (extractVideoPrompts (JObj kvs)))"
  by (rule extractVideoPrompts_images)

theorem video_normalizer_images_case_witness:
  "arrayProp mixedEntries ''images'' = Some batchImages \<and>
   list_all (\<lambda>x. \<not> nullish x) batchImages \<and>
   extractVideoPrompts (JObj mixedEntries) = Inr batchWorkItems \<and>
   arrayProp [(''images'', JArr [JNull])] ''images'' = Some [JNull] \<and>
   isl (extractVideoPrompts (JObj [(''images'', JArr [JNull])]))"
proof -
  have a: "arrayProp mixedEntries ''images'' = Some batchImages"
    by code_simp
  have b: "list_all (\<lambda>x. \<not> nullish x) batchImages"
    by code_simp
  have c: "map (\<lambda>(index, img). entryWorkItem index img)
             (enumerate 0 (filter keptEntry batchImages)) = batchWorkItems"
    by code_simp
  have e: "arrayProp [(''images'', JArr [JNull])] ''images'' = Some [JNull]"
    by code_simp
  have f: "\<not> list_all (\<lambda>x. \<not> nullish x) [JNull]"
    by simp
  from a b c e f
    video_normalizer_images_case_first [of mixedEntries batchImages]
    video_normalizer_images_case_first [of "[(''images'', JArr [JNull])]" "[JNull]"]
  show ?thesis by simp
qed

text \<open>
  The image normalizer has no such case: it gives the output of an image batch the
  default prompt.
\<close>

theorem image_normalizer_images_case_counterexample:
  "extractVideoPrompts (JObj imageBatchEntries) = Inr batchWorkItems \<and>
   extractPrompts (JObj imageBatchEntries) = Inr [defaultItem] \<and>
   extractPrompts (JObj imageBatchEntries) \<noteq> Inr batchWorkItems"
  by code_simp

subsection \<open>Which inputs the normalizers accept\<close>





lemma callToString_nullish: "nullish x \<Longrightarrow> isl (callToString x)"
  by (cases x) simp_all
















section \<open>Image executor: the loop\<close>

text \<open>
  What one iteration of the loop adds, when it does not throw: the record pushed for
  item \<open>i\<close> and the events of the iteration.
\<close>

definition imageRecord :: "fluxModelKey \<Rightarrow> string \<Rightarrow> environment \<Rightarrow> nat \<Rightarrow> workItem \<Rightarrow> imageResult" where
  "imageRecord modelKey publicDir env i item =
     (case imageTry modelKey publicDir env i item of
        Inr record \<Rightarrow> record
      | Inl error \<Rightarrow> failedImage modelKey item (message error))"

definition imageEvents ::
  "fluxModelKey \<Rightarrow> string \<Rightarrow> environment \<Rightarrow> nat \<Rightarrow> nat \<Rightarrow> workItem \<Rightarrow> event list" where
  "imageEvents modelKey publicDir env n i item =
     ProviderCall i (JStr (substring0 4000 (case prompt item of JStr p \<Rightarrow> p | _ \<Rightarrow> []))) #
     (case imageTry modelKey publicDir env i item of
        Inr record \<Rightarrow> if i < n - 1 then [Sleep 1000] else []
      | Inl error \<Rightarrow> if strIncludes (message error) ''rate limit'' then [Sleep 10000] else [])"

lemma imageTry_success: "imageTry modelKey publicDir env i item = Inr r \<Longrightarrow> img_success r"
  by (cases "jsToString (jsOr (shotNumber item) (indexPlus1 i))")
     (auto simp: imageTry_def Let_def split: runOutcome.splits)

lemma promptSubstring_Inr: "promptSubstring v = Inr p \<Longrightarrow> v = JStr p"
  by (cases v) simp_all

lemma imageIteration_Inr:
  assumes "imageIteration modelKey publicDir env n i item st = Inr st'"
  shows "st' = st\<lparr>results := results st @ [imageRecord modelKey publicDir env i item],
                 successCount := successCount st +
                   (if img_success (imageRecord modelKey publicDir env i item) then 1 else 0),
                 failCount := failCount st +
                   (if img_success (imageRecord modelKey publicDir env i item) then 0 else 1),
                 trace := trace st @ imageEvents modelKey publicDir env n i item\<rparr>"
proof -
  from assms obtain t where t: "jsToString (shotNumber item) = Inr t"
    by (cases "jsToString (shotNumber item)") (simp_all add: imageIteration_def)
  from assms t obtain p where p: "promptSubstring (prompt item) = Inr p"
    by (cases "promptSubstring (prompt item)") (simp_all add: imageIteration_def)
  then have str: "prompt item = JStr p" by (rule promptSubstring_Inr)
  show ?thesis
  proof (cases "imageTry modelKey publicDir env i item")
    case (Inr r)
    with imageTry_success [OF Inr] assms t p str show ?thesis
      by (simp add: imageIteration_def imageRecord_def imageEvents_def Let_def)
  next
    case (Inl e)
    with assms t p str show ?thesis
      by (simp add: imageIteration_def imageRecord_def imageEvents_def Let_def failedImage_def)
  qed
qed

lemma imageLoop_Inr:
  assumes "imageLoop modelKey publicDir env n i items st = Inr st'"
  shows "results st' = results st @
           map (\<lambda>(j, item). imageRecord modelKey publicDir env j item) (enumerate i items) \<and>
         successCount st' = successCount st +
           length (filter img_success
             (map (\<lambda>(j, item). imageRecord modelKey publicDir env j item) (enumerate i items))) \<and>
         failCount st' = failCount st +
           length (filter (\<lambda>r. \<not> img_success r)
             (map (\<lambda>(j, item). imageRecord modelKey publicDir env j item) (enumerate i items))) \<and>
         trace st' = trace st @
           concat (map (\<lambda>(j, item). imageEvents modelKey publicDir env n j item)
             (enumerate i items))"
  using assms
proof (induction items arbitrary: i st)
  case Nil
  then show ?case by simp
next
  case (Cons item items)
  from Cons.prems obtain st1 where
    one: "imageIteration modelKey publicDir env n i item st = Inr st1" and
    rest: "imageLoop modelKey publicDir env n (Suc i) items st1 = Inr st'"
    by (cases "imageIteration modelKey publicDir env n i item st") simp_all
  note step = imageIteration_Inr [OF one]
  from Cons.IH [OF rest] show ?case
    by (subst (asm) (1 2 3 4) step, subst (asm) (1 2 3 4) step) simp
qed
lemma generateImages_Inr:
  assumes "generateImages modelKey publicDir env prompts = Inr (out, tr)"
  shows "images out =
           map (\<lambda>(j, item). imageRecord modelKey publicDir env j item)
             (enumerate 0 (take MAX_IMAGES prompts)) \<and>
         totalGenerated out = length (filter img_success (images out)) \<and>
         totalFailed out = length (filter (\<lambda>r. \<not> img_success r) (images out)) \<and>
         totalRequested out = length (take MAX_IMAGES prompts) \<and>
         estimatedTotalCost out =
           toFixed 4 (of_int (int (totalGenerated out)) * costPerImage modelKey) \<and>
         tr = concat (map (\<lambda>(j, item).
                 imageEvents modelKey publicDir env (length (take MAX_IMAGES prompts)) j item)
               (enumerate 0 (take MAX_IMAGES prompts)))"
proof -
  let ?items = "take MAX_IMAGES prompts"
  let ?st0 = "\<lparr>results = [], successCount = 0, failCount = 0, trace = []\<rparr>"
  from assms obtain st where
    loop: "imageLoop modelKey publicDir env (length ?items) 0 ?items ?st0 = Inr st" and
    res: "out = \<lparr>images = results st, totalGenerated = successCount st,
                  totalFailed = failCount st, totalRequested = length ?items,
                  estimatedTotalCost =
                    toFixed 4 (of_int (int (successCount st)) * costPerImage modelKey),
                  provider = ''replicate'', model = modelKeyName modelKey,
                  modelId = replicateId modelKey, savedToPublic = True,
                  publicPath = ''/generated-images/''\<rparr>" and
    tr: "tr = trace st"
    by (cases "imageLoop modelKey publicDir env (length ?items) 0 ?items ?st0")
       (simp_all add: generateImages_def Let_def)
  from imageLoop_Inr [OF loop] res tr show ?thesis by simp
qed

lemma executeImageGenNode_Inr:
  assumes "executeImageGenNode nodeData lastOutput apiKey envKey env = Inr r"
  shows "\<exists>prompts publicDir.
           extractPrompts lastOutput = Inr prompts \<and>
           generateImages (resolveModelKey nodeData) publicDir env prompts = Inr r"
proof -
  from assms have key: "\<not> missingKey (resolveKey apiKey envKey)"
    by (auto simp: executeImageGenNode_def split: if_splits)
  with assms obtain prompts where p: "extractPrompts lastOutput = Inr prompts"
    by (cases "extractPrompts lastOutput") (simp_all add: executeImageGenNode_def)
  with assms key obtain publicDir where
    "ensurePublicDirectory env ''generated-images'' = Inr publicDir"
    by (cases "ensurePublicDirectory env ''generated-images''")
       (simp_all add: executeImageGenNode_def)
  with assms key p show ?thesis
    by (auto simp: executeImageGenNode_def)
qed

section \<open>Video executors: the loop\<close>

definition clipRecord ::
  "videoExecutor \<Rightarrow> string \<Rightarrow> environment \<Rightarrow> string \<Rightarrow> rat \<Rightarrow> nat \<Rightarrow> workItem \<Rightarrow> videoClipResult" where
  "clipRecord ex outputDir env m duration i item =
     (case generateSingleClip ex outputDir env i (prompt item) (shotNumber item)
             (sourceImage item) m duration of
        Inr clip \<Rightarrow> clip
      | Inl error \<Rightarrow>
          failedClip (shotNumber item) (prompt item) (sourceImage item) m (message error))"

definition clipEvents ::
  "videoExecutor \<Rightarrow> string \<Rightarrow> environment \<Rightarrow> string \<Rightarrow> rat \<Rightarrow> nat \<Rightarrow> nat \<Rightarrow> workItem \<Rightarrow> event list" where
  "clipEvents ex outputDir env m duration n i item =
     (case generateSingleClip ex outputDir env i (prompt item) (shotNumber item)
             (sourceImage item) m duration of
        Inr clip \<Rightarrow> ProviderCall i (prompt item) # (if i < n - 1 then [Sleep 2000] else [])
      | Inl error \<Rightarrow>
          if strIncludes (message error) ''rate limit'' \<or> strIncludes (message error) ''429''
          then [Sleep 30000] else [])"

lemma videoIteration_Inr:
  assumes "videoIteration ex outputDir env m duration n i item st = Inr st'"
  shows "st' = st\<lparr>clipResults := clipResults st @ [clipRecord ex outputDir env m duration i item],
                 clipSuccessCount := clipSuccessCount st +
                   (if clip_success (clipRecord ex outputDir env m duration i item) then 1 else 0),
                 clipFailCount := clipFailCount st +
                   (if clip_success (clipRecord ex outputDir env m duration i item) then 0 else 1),
                 clipTrace := clipTrace st @ clipEvents ex outputDir env m duration n i item\<rparr>"
proof -
  from assms obtain t where t: "jsToString (shotNumber item) = Inr t"
    by (cases "jsToString (shotNumber item)") (simp_all add: videoIteration_def)
  show ?thesis
  proof (cases "generateSingleClip ex outputDir env i (prompt item) (shotNumber item)
             (sourceImage item) m duration")
    case (Inr clip)
    with assms t show ?thesis
      by (simp add: videoIteration_def clipRecord_def clipEvents_def)
  next
    case (Inl e)
    with assms t show ?thesis
      by (simp add: videoIteration_def clipRecord_def clipEvents_def failedClip_def)
  qed
qed

lemma videoLoop_Inr:
  assumes "videoLoop ex outputDir env m duration n i items st = Inr st'"
  shows "clipResults st' = clipResults st @
           map (\<lambda>(j, item). clipRecord ex outputDir env m duration j item) (enumerate i items) \<and>
         clipSuccessCount st' = clipSuccessCount st +
           length (filter clip_success
             (map (\<lambda>(j, item). clipRecord ex outputDir env m duration j item)
               (enumerate i items))) \<and>
         clipFailCount st' = clipFailCount st +
           length (filter (\<lambda>r. \<not> clip_success r)
             (map (\<lambda>(j, item). clipRecord ex outputDir env m duration j item)
               (enumerate i items))) \<and>
         clipTrace st' = clipTrace st @
           concat (map (\<lambda>(j, item). clipEvents ex outputDir env m duration n j item)
             (enumerate i items))"
  using assms
proof (induction items arbitrary: i st)
  case Nil
  then show ?case by simp
next
  case (Cons item items)
  from Cons.prems obtain st1 where
    one: "videoIteration ex outputDir env m duration n i item st = Inr st1" and
    rest: "videoLoop ex outputDir env m duration n (Suc i) items st1 = Inr st'"
    by (cases "videoIteration ex outputDir env m duration n i item st") simp_all
  note step = videoIteration_Inr [OF one]
  from Cons.IH [OF rest] show ?case
    by (subst (asm) (1 2 3 4) step, subst (asm) (1 2 3 4) step) simp
qed

lemma generateClips_Inr:
  assumes "generateClips ex config outputDir env tool prompts = Inr (out, tr)"
  shows "clips out =
           map (\<lambda>(j, item). clipRecord ex outputDir env (resolveVideoModel ex config)
                   (resolveDuration config) j item)
             (enumerate 0 (take MAX_CLIPS prompts)) \<and>
         video_totalGenerated out = length (filter clip_success (clips out)) \<and>
         video_totalFailed out = length (filter (\<lambda>r. \<not> clip_success r) (clips out)) \<and>
         (finalVideo out, stitchingStatus out) =
           stitchStep tool (clips out) (video_totalGenerated out) outputDir \<and>
         video_estimatedTotalCost out =
           toFixed 2 (foldl (\<lambda>sum c. sum + clip_duration c) 0 (filter clip_success (clips out)) *
                      costPerSecond ex (resolveVideoModel ex config)) \<and>
         tr = concat (map (\<lambda>(j, item).
                 clipEvents ex outputDir env (resolveVideoModel ex config)
                   (resolveDuration config) (length (take MAX_CLIPS prompts)) j item)
               (enumerate 0 (take MAX_CLIPS prompts)))"
proof -
  let ?items = "take MAX_CLIPS prompts"
  let ?m = "resolveVideoModel ex config"
  let ?d = "resolveDuration config"
  let ?st0 = "\<lparr>clipResults = [], clipSuccessCount = 0, clipFailCount = 0, clipTrace = []\<rparr>"
  from assms obtain st where
    loop: "videoLoop ex outputDir env ?m ?d (length ?items) 0 ?items ?st0 = Inr st"
    by (cases "videoLoop ex outputDir env ?m ?d (length ?items) 0 ?items ?st0")
       (simp_all add: generateClips_def Let_def)
  obtain final status where
    fs: "stitchStep tool (clipResults st) (clipSuccessCount st) outputDir = (final, status)"
    by (cases "stitchStep tool (clipResults st) (clipSuccessCount st) outputDir")
  from assms loop fs have
    "out = \<lparr>clips = clipResults st, finalVideo = final,
            video_totalGenerated = clipSuccessCount st,
            video_totalFailed = clipFailCount st,
            video_estimatedTotalCost =
              toFixed 2 (foldl (\<lambda>sum c. sum + clip_duration c) 0
                           (filter clip_success (clipResults st)) * costPerSecond ex ?m),
            video_provider =
              (case ex of ReplicateExecutor \<Rightarrow> ''replicate'' | RunwayExecutor \<Rightarrow> ''runway''),
            stitchingStatus = status\<rparr>" and "tr = clipTrace st"
    by (simp_all add: generateClips_def Let_def)
  with videoLoop_Inr [OF loop] fs show ?thesis by simp
qed

lemma executeVideoGenNode_Inr:
  assumes "executeVideoGenNode ex config lastOutput apiKey envKey env tool = Inr r"
  shows "\<exists>prompts outputDir.
           videoPrompts ex lastOutput = Inr prompts \<and>
           generateClips ex config outputDir env tool prompts = Inr r"
proof -
  from assms have key: "\<not> missingKey (resolveKey apiKey envKey)"
    by (auto simp: executeVideoGenNode_def split: if_splits)
  with assms obtain prompts where p: "videoPrompts ex lastOutput = Inr prompts"
    by (cases "videoPrompts ex lastOutput") (simp_all add: executeVideoGenNode_def)
  with assms key obtain outputDir where
    "ensurePublicDirectory env ''generated-videos'' = Inr outputDir"
    by (cases "ensurePublicDirectory env ''generated-videos''")
       (simp_all add: executeVideoGenNode_def)
  with assms key p show ?thesis
    by (auto simp: executeVideoGenNode_def)
qed

section \<open>Batch outcome: properties\<close>

subsection \<open>Inputs\<close>

text \<open>
  A run environment: the provider rejects the second item with a rate-limit message and
  serves the others; the clock reads the same for every item (2.14 seconds each).
\<close>

definition sampleEnv :: environment where
  "sampleEnv =
     \<lparr>cwd = ''/app'', mkdirError = None,
      runOutcome = (\<lambda>i. if i = 1 then Thrown ''HTTP 429: rate limit exceeded'' else Saved),
      startTime = (\<lambda>i. 1000), timestamp = (\<lambda>i. 17), endTime = (\<lambda>i. 3140)\<rparr>"

definition sampleTool :: stitchEnvironment where
  "sampleTool = \<lparr>ffmpeg = (\<lambda>manifest. ToolEnd), stitchTimestamp = 90\<rparr>"

definition defaultImageNode :: imageNodeData where
  "defaultImageNode = \<lparr>imageGenConfig_model = None, legacyConfig_model = None\<rparr>"

definition defaultVideoConfig :: videoGenConfig where
  "defaultVideoConfig = \<lparr>config_model = None, config_duration = None\<rparr>"

definition threeShots :: jsval where
  "threeShots =
     JArr [JStr ''a red kite over dunes'', JStr ''a blue kite over dunes'',
           JStr ''a green kite over dunes'']"

definition threeImageItems :: "workItem list" where
  "threeImageItems =
     [\<lparr>shotNumber = JNum 1, prompt = JStr ''a red kite over dunes'', sourceImage = JUndefined,
       aspectRatio = JStr ''4:3'', style = JStr ''cinematic''\<rparr>,
      \<lparr>shotNumber = JNum 2, prompt = JStr ''a blue kite over dunes'', sourceImage = JUndefined,
       aspectRatio = JStr ''4:3'', style = JStr ''cinematic''\<rparr>,
      \<lparr>shotNumber = JNum 3, prompt = JStr ''a green kite over dunes'', sourceImage = JUndefined,
       aspectRatio = JStr ''4:3'', style = JStr ''cinematic''\<rparr>]"

definition threeVideoItems :: "workItem list" where
  "threeVideoItems =
     [\<lparr>shotNumber = JNum 1, prompt = JStr ''a red kite over dunes'', sourceImage = JUndefined,
       aspectRatio = JStr ''16:9'', style = JUndefined\<rparr>,
      \<lparr>shotNumber = JNum 2, prompt = JStr ''a blue kite over dunes'', sourceImage = JUndefined,
       aspectRatio = JStr ''16:9'', style = JUndefined\<rparr>,
      \<lparr>shotNumber = JNum 3, prompt = JStr ''a green kite over dunes'', sourceImage = JUndefined,
       aspectRatio = JStr ''16:9'', style = JUndefined\<rparr>]"

subsection \<open>When a run returns\<close>

fun isString :: "jsval \<Rightarrow> bool" where
  "isString (JStr s) = True"
| "isString v = False"

text \<open>
  The image loop gets past the two \<^verbatim>\<open>console.log\<close> lines of an item when its shot number
  converts to a string and its prompt is a string; the video loop needs the first only.
\<close>

definition imageRunnable :: "workItem \<Rightarrow> bool" where
  "imageRunnable item = (\<not> isl (jsToString (shotNumber item)) \<and> isString (prompt item))"

definition videoRunnable :: "workItem \<Rightarrow> bool" where
  "videoRunnable item = (\<not> isl (jsToString (shotNumber item)))"

lemma imageLoop_returns:
  "list_all imageRunnable items \<Longrightarrow>
   \<exists>st'. imageLoop modelKey publicDir env n i items st = Inr st'"
proof (induction items arbitrary: i st)
  case Nil
  show ?case by simp
next
  case (Cons item items)
  from Cons.prems obtain t p where
    "jsToString (shotNumber item) = Inr t" "prompt item = JStr p"
    by (cases "jsToString (shotNumber item)"; cases "prompt item")
       (simp_all add: imageRunnable_def)
  then obtain st1 where "imageIteration modelKey publicDir env n i item st = Inr st1"
    by (cases "imageTry modelKey publicDir env i item")
       (simp_all add: imageIteration_def Let_def)
  moreover from Cons.prems have "list_all imageRunnable items" by simp
  from Cons.IH [OF this]
  obtain st' where "imageLoop modelKey publicDir env n (Suc i) items st1 = Inr st'"
    by blast
  ultimately show ?case by simp
qed

lemma videoLoop_returns:
  "list_all videoRunnable items \<Longrightarrow>
   \<exists>st'. videoLoop ex outputDir env m duration n i items st = Inr st'"
proof (induction items arbitrary: i st)
  case Nil
  show ?case by simp
next
  case (Cons item items)
  from Cons.prems obtain t where "jsToString (shotNumber item) = Inr t"
    by (cases "jsToString (shotNumber item)") (simp_all add: videoRunnable_def)
  then obtain st1 where
    "videoIteration ex outputDir env m duration n i item st = Inr st1"
    by (cases "generateSingleClip ex outputDir env i (prompt item) (shotNumber item)
                 (sourceImage item) m duration")
       (simp_all add: videoIteration_def)
  moreover from Cons.prems have "list_all videoRunnable items" by simp
  from Cons.IH [OF this]
  obtain st' where "videoLoop ex outputDir env m duration n (Suc i) items st1 = Inr st'"
    by blast
  ultimately show ?case by simp
qed

lemma executeImageGenNode_returns:
  assumes "\<not> missingKey (resolveKey apiKey envKey)" and "mkdirError env = None"
    and "extractPrompts lastOutput = Inr prompts"
    and "list_all imageRunnable (take MAX_IMAGES prompts)"
  shows "\<exists>out tr. executeImageGenNode nodeData lastOutput apiKey envKey env = Inr (out, tr)"
proof -
  let ?dir = "pathJoin (pathJoin (cwd env) ''public'') ''generated-images''"
  let ?items = "take MAX_IMAGES prompts"
  from imageLoop_returns [OF assms(4)]
  obtain st where "imageLoop (resolveModelKey nodeData) ?dir env (length ?items) 0 ?items
      \<lparr>results = [], successCount = 0, failCount = 0, trace = []\<rparr> = Inr st"
    by blast
  with assms(1-3) show ?thesis
    by (simp add: executeImageGenNode_def ensurePublicDirectory_def generateImages_def Let_def)
qed

lemma executeVideoGenNode_returns:
  assumes "\<not> missingKey (resolveKey apiKey envKey)" and "mkdirError env = None"
    and "videoPrompts ex lastOutput = Inr prompts"
    and "list_all videoRunnable (take MAX_CLIPS prompts)"
  shows "\<exists>out tr. executeVideoGenNode ex config lastOutput apiKey envKey env tool = Inr (out, tr)"
proof -
  let ?dir = "pathJoin (pathJoin (cwd env) ''public'') ''generated-videos''"
  let ?items = "take MAX_CLIPS prompts"
  from videoLoop_returns [OF assms(4)]
  obtain st where "videoLoop ex ?dir env (resolveVideoModel ex config) (resolveDuration config)
      (length ?items) 0 ?items
      \<lparr>clipResults = [], clipSuccessCount = 0, clipFailCount = 0, clipTrace = []\<rparr> = Inr st"
    by blast
  with assms(1-3) show ?thesis
    by (simp add: executeVideoGenNode_def ensurePublicDirectory_def generateClips_def Let_def
        split: prod.splits)
qed

subsection \<open>Records and items\<close>

lemma imageRecord_item:
  "img_originalPrompt (imageRecord modelKey publicDir env i item) = prompt item \<and>
   img_shotNumber (imageRecord modelKey publicDir env i item) = shotNumber item"
  by (cases "jsToString (jsOr (shotNumber item) (indexPlus1 i))")
     (simp_all add: imageRecord_def imageTry_def failedImage_def Let_def
        split: runOutcome.splits)

lemma clipRecord_item:
  "clip_originalPrompt (clipRecord ex outputDir env m duration i item) = prompt item \<and>
   clip_shotNumber (clipRecord ex outputDir env m duration i item) = shotNumber item"
  by (cases "jsToString (shotNumber item)"; cases "promptSubstring (prompt item)";
      cases "jsToString (jsOr (shotNumber item) (JNum 1))")
     (simp_all add: clipRecord_def generateSingleClip_def clipTry_def failedClip_def Let_def
        split: runOutcome.splits)

lemma map_enumerate_field:
  assumes "\<And>j x. g (f j x) = h x"
  shows "map g (map (\<lambda>(j, x). f j x) (enumerate i xs)) = map h xs"
  by (induction xs arbitrary: i) (simp_all add: assms)

lemma length_filter_complement:
  "length (filter P xs) + length (filter (\<lambda>x. \<not> P x) xs) = length xs"
  by (induction xs) simp_all

text \<open>
  C9. A run of the image or of the video executor that returns gives exactly one record
  per processed work item: the result list is as long as the capped list of items (20
  for images, 10 for video), in the order of the items (it carries their prompts and
  shot numbers in order), the two counters add up to its length, and
  \<^verbatim>\<open>totalGenerated\<close> is the number of records with \<^verbatim>\<open>success = true\<close>. The run returns
  whenever the key is present, the output directory can be made, the normalizer returns
  and the capped items get past the logging lines of the loop.
\<close>

theorem batch_has_one_record_per_item:
  "(executeImageGenNode nodeData lastOutput apiKey envKey env = Inr (out, tr) \<and>
    extractPrompts lastOutput = Inr prompts \<longrightarrow>
      length (images out) = min 20 (length prompts) \<and>
      map img_originalPrompt (images out) = map prompt (take 20 prompts) \<and>
      map img_shotNumber (images out) = map shotNumber (take 20 prompts) \<and>
      totalGenerated out + totalFailed out = length (images out) \<and>
      totalGenerated out = length (filter img_success (images out))) \<and>
   (executeVideoGenNode ex config lastOutput apiKey envKey env tool = Inr (vout, vtr) \<and>
    videoPrompts ex lastOutput = Inr vprompts \<longrightarrow>
      length (clips vout) = min 10 (length vprompts) \<and>
      map clip_originalPrompt (clips vout) = map prompt (take 10 vprompts) \<and>
      map clip_shotNumber (clips vout) = map shotNumber (take 10 vprompts) \<and>
      video_totalGenerated vout + video_totalFailed vout = length (clips vout) \<and>
      video_totalGenerated vout = length (filter clip_success (clips vout))) \<and>
   (\<not> missingKey (resolveKey apiKey envKey) \<and> mkdirError env = None \<and>
    extractPrompts lastOutput = Inr prompts \<and> list_all imageRunnable (take 20 prompts) \<longrightarrow>
      (\<exists>out tr. executeImageGenNode nodeData lastOutput apiKey envKey env = Inr (out, tr))) \<and>
   (\<not> missingKey (resolveKey apiKey envKey) \<and> mkdirError env = None \<and>
    videoPrompts ex lastOutput = Inr vprompts \<and> list_all videoRunnable (take 10 vprompts) \<longrightarrow>
      (\<exists>out tr. executeVideoGenNode ex config lastOutput apiKey envKey env tool =
         Inr (out, tr)))"
proof (intro conjI impI)
  assume a: "executeImageGenNode nodeData lastOutput apiKey envKey env = Inr (out, tr) \<and>
    extractPrompts lastOutput = Inr prompts"
  then obtain publicDir where
    "generateImages (resolveModelKey nodeData) publicDir env prompts = Inr (out, tr)"
    using executeImageGenNode_Inr [of nodeData lastOutput apiKey envKey env "(out, tr)"]
    by auto
  note g = generateImages_Inr [OF this]
  from g show "length (images out) = min 20 (length prompts)"
    by (simp add: MAX_IMAGES_def)
  from g show "map img_originalPrompt (images out) = map prompt (take 20 prompts)"
    by (simp only: map_enumerate_field [of img_originalPrompt _ prompt] imageRecord_item
          MAX_IMAGES_def)
  from g show "map img_shotNumber (images out) = map shotNumber (take 20 prompts)"
    by (simp only: map_enumerate_field [of img_shotNumber _ shotNumber] imageRecord_item
          MAX_IMAGES_def)
  from g length_filter_complement [of img_success "images out"]
  show "totalGenerated out + totalFailed out = length (images out)"
    by simp
  from g show "totalGenerated out = length (filter img_success (images out))"
    by simp
next
  assume a: "executeVideoGenNode ex config lastOutput apiKey envKey env tool = Inr (vout, vtr) \<and>
    videoPrompts ex lastOutput = Inr vprompts"
  then obtain outputDir where
    "generateClips ex config outputDir env tool vprompts = Inr (vout, vtr)"
    using executeVideoGenNode_Inr [of ex config lastOutput apiKey envKey env tool "(vout, vtr)"]
    by auto
  note g = generateClips_Inr [OF this]
  from g show "length (clips vout) = min 10 (length vprompts)"
    by (simp add: MAX_CLIPS_def)
  from g show "map clip_originalPrompt (clips vout) = map prompt (take 10 vprompts)"
    by (simp only: map_enumerate_field [of clip_originalPrompt _ prompt] clipRecord_item
          MAX_CLIPS_def)
  from g show "map clip_shotNumber (clips vout) = map shotNumber (take 10 vprompts)"
    by (simp only: map_enumerate_field [of clip_shotNumber _ shotNumber] clipRecord_item
          MAX_CLIPS_def)
  from g length_filter_complement [of clip_success "clips vout"]
  show "video_totalGenerated vout + video_totalFailed vout = length (clips vout)"
    by simp
  from g show "video_totalGenerated vout = length (filter clip_success (clips vout))"
    by simp
next
  assume "\<not> missingKey (resolveKey apiKey envKey) \<and> mkdirError env = None \<and>
    extractPrompts lastOutput = Inr prompts \<and> list_all imageRunnable (take 20 prompts)"
  then show "\<exists>out tr. executeImageGenNode nodeData lastOutput apiKey envKey env = Inr (out, tr)"
    using executeImageGenNode_returns [of apiKey envKey env lastOutput prompts nodeData]
    by (simp add: MAX_IMAGES_def)
next
  assume "\<not> missingKey (resolveKey apiKey envKey) \<and> mkdirError env = None \<and>
    videoPrompts ex lastOutput = Inr vprompts \<and> list_all videoRunnable (take 10 vprompts)"
  then show "\<exists>out tr. executeVideoGenNode ex config lastOutput apiKey envKey env tool =
         Inr (out, tr)"
    using executeVideoGenNode_returns [of apiKey envKey env ex lastOutput vprompts config tool]
    by (simp add: MAX_CLIPS_def)
qed
theorem batch_has_one_record_per_item_witness:
  "\<not> missingKey (resolveKey (Some ''r8_key'') None) \<and> mkdirError sampleEnv = None \<and>
   extractPrompts threeShots = Inr threeImageItems \<and>
   list_all imageRunnable (take 20 threeImageItems) \<and>
   (\<exists>out tr.
      executeImageGenNode defaultImageNode threeShots (Some ''r8_key'') None sampleEnv =
        Inr (out, tr) \<and>
      length (images out) = 3 \<and>
      map img_originalPrompt (images out) = map prompt threeImageItems \<and>
      totalGenerated out + totalFailed out = 3 \<and>
      totalGenerated out = length (filter img_success (images out))) \<and>
   videoPrompts RunwayExecutor threeShots = Inr threeVideoItems \<and>
   list_all videoRunnable (take 10 threeVideoItems) \<and>
   (\<exists>vout vtr.
      executeVideoGenNode RunwayExecutor defaultVideoConfig threeShots (Some ''r8_key'') None
        sampleEnv sampleTool = Inr (vout, vtr) \<and>
      length (clips vout) = 3 \<and>
      map clip_originalPrompt (clips vout) = map prompt threeVideoItems \<and>
      video_totalGenerated vout + video_totalFailed vout = 3 \<and>
      video_totalGenerated vout = length (filter clip_success (clips vout)))"
proof -
  have key: "\<not> missingKey (resolveKey (Some ''r8_key'') None)"
    by code_simp
  have dir: "mkdirError sampleEnv = None"
    by code_simp
  have ip: "extractPrompts threeShots = Inr threeImageItems"
    by code_simp
  have ir: "list_all imageRunnable (take 20 threeImageItems)"
    by code_simp
  have vp: "videoPrompts RunwayExecutor threeShots = Inr threeVideoItems"
    by code_simp
  have vr: "list_all videoRunnable (take 10 threeVideoItems)"
    by code_simp
  have len: "length threeImageItems = 3" "length threeVideoItems = 3"
    by (simp_all add: threeImageItems_def threeVideoItems_def)
  note T = batch_has_one_record_per_item
    [where nodeData = defaultImageNode and lastOutput = threeShots
       and apiKey = "Some ''r8_key''" and envKey = None and env = sampleEnv
       and prompts = threeImageItems and ex = RunwayExecutor and config = defaultVideoConfig
       and tool = sampleTool and vprompts = threeVideoItems]
  from T key dir ip ir obtain out tr where
    run: "executeImageGenNode defaultImageNode threeShots (Some ''r8_key'') None sampleEnv =
      Inr (out, tr)"
    by blast
  from T key dir vp vr obtain vout vtr where
    vrun: "executeVideoGenNode RunwayExecutor defaultVideoConfig threeShots (Some ''r8_key'')
      None sampleEnv sampleTool = Inr (vout, vtr)"
    by blast
  from T [of out tr vout vtr] run ip have
    "length (images out) = 3 \<and>
     map img_originalPrompt (images out) = map prompt threeImageItems \<and>
     totalGenerated out + totalFailed out = 3 \<and>
     totalGenerated out = length (filter img_success (images out))"
    using len by simp
  moreover from T [of out tr vout vtr] vrun vp have
    "length (clips vout) = 3 \<and>
     map clip_originalPrompt (clips vout) = map prompt threeVideoItems \<and>
     video_totalGenerated vout + video_totalFailed vout = 3 \<and>
     video_totalGenerated vout = length (filter clip_success (clips vout))"
    using len by simp
  ultimately show ?thesis
    using key dir ip ir vp vr run vrun by blast
qed

subsection \<open>The shape of a record\<close>

text \<open>A provider whose every failure carries an empty message.\<close>

definition silentEnv :: environment where
  "silentEnv =
     \<lparr>cwd = ''/app'', mkdirError = None, runOutcome = (\<lambda>i. Thrown []),
      startTime = (\<lambda>i. 1000), timestamp = (\<lambda>i. 17), endTime = (\<lambda>i. 3140)\<rparr>"

text \<open>The runs of the image executor and of the Replicate video executor on three shots.\<close>

definition sampleImageRun :: "jsError + imageGenOutput \<times> event list" where
  "sampleImageRun =
     executeImageGenNode defaultImageNode threeShots (Some ''r8_key'') None sampleEnv"

definition sampleVideoRun :: "jsError + videoGenOutput \<times> event list" where
  "sampleVideoRun =
     executeVideoGenNode ReplicateExecutor defaultVideoConfig threeShots (Some ''r8_key'') None
       sampleEnv sampleTool"

lemma jsToString_message:
  "jsToString v = Inl e \<Longrightarrow> message e \<noteq> []"
  "joinElems vs = Inl e \<Longrightarrow> message e \<noteq> []"
proof (induction v and vs arbitrary: e and e rule: jsToString_joinElems.induct)
  case (9 x xs)
  show ?case
  proof (cases "if nullish x then Inr [] else jsToString x")
    case (Inl e')
    with "9.prems" have "e' = e" by simp
    with Inl "9.IH"(1) [of e] show ?thesis by (simp split: if_splits)
  next
    case (Inr s)
    with "9.prems" have "xs \<noteq> []" "joinElems xs = Inl e"
      by (auto split: if_splits elim: andThen.elims)
    with "9.IH"(2) [of e] show ?thesis by simp
  qed
qed (auto split: if_splits)

lemma promptSubstring_message: "promptSubstring v = Inl e \<Longrightarrow> message e \<noteq> []"
  by (cases v) auto

lemma imageRecord_shape:
  "(img_success (imageRecord modelKey publicDir env i item) \<and>
    img_url (imageRecord modelKey publicDir env i item) \<noteq> [] \<and>
    img_localPath (imageRecord modelKey publicDir env i item) \<noteq> [] \<and>
    img_error (imageRecord modelKey publicDir env i item) = None) \<or>
   (\<not> img_success (imageRecord modelKey publicDir env i item) \<and>
    img_url (imageRecord modelKey publicDir env i item) = [] \<and>
    img_localPath (imageRecord modelKey publicDir env i item) = [] \<and>
    (\<exists>m. img_error (imageRecord modelKey publicDir env i item) = Some m \<and>
         (m = [] \<longrightarrow> runOutcome env i = Thrown [])))"
proof (cases "runOutcome env i")
  case Saved
  show ?thesis
  proof (cases "jsToString (jsOr (shotNumber item) (indexPlus1 i))")
    case (Inl e)
    with Saved jsToString_message(1) [OF Inl] show ?thesis
      by (simp add: imageRecord_def imageTry_def failedImage_def)
  next
    case (Inr t)
    with Saved show ?thesis
      by (simp add: imageRecord_def imageTry_def Let_def pathJoin_def)
  qed
next
  case UnexpectedOutput
  then show ?thesis
    by (simp add: imageRecord_def imageTry_def failedImage_def)
next
  case (Thrown msg)
  then show ?thesis
    by (simp add: imageRecord_def imageTry_def failedImage_def)
qed

lemma clipRecord_shape:
  "(clip_success (clipRecord ex outputDir env m duration i item) \<and>
    clip_url (clipRecord ex outputDir env m duration i item) \<noteq> [] \<and>
    clip_localPath (clipRecord ex outputDir env m duration i item) \<noteq> [] \<and>
    clip_error (clipRecord ex outputDir env m duration i item) = None \<and>
    clip_duration (clipRecord ex outputDir env m duration i item) = duration \<and>
    clip_estimatedCost (clipRecord ex outputDir env m duration i item) =
      toFixed 2 (duration * costPerSecond ex m)) \<or>
   (\<not> clip_success (clipRecord ex outputDir env m duration i item) \<and>
    clip_url (clipRecord ex outputDir env m duration i item) = [] \<and>
    clip_localPath (clipRecord ex outputDir env m duration i item) = [] \<and>
    clip_duration (clipRecord ex outputDir env m duration i item) = 0 \<and>
    clip_estimatedCost (clipRecord ex outputDir env m duration i item) = 0 \<and>
    (\<exists>msg. clip_error (clipRecord ex outputDir env m duration i item) = Some msg \<and>
         (msg = [] \<longrightarrow> runOutcome env i = Thrown [])))"
proof (cases "jsToString (shotNumber item)")
  case (Inl e)
  with jsToString_message(1) [OF Inl] show ?thesis
    by (simp add: clipRecord_def generateSingleClip_def failedClip_def)
next
  case shot: (Inr t)
  show ?thesis
  proof (cases "promptSubstring (prompt item)")
    case (Inl e)
    with shot promptSubstring_message [OF Inl] show ?thesis
      by (simp add: clipRecord_def generateSingleClip_def failedClip_def)
  next
    case str: (Inr p)
    show ?thesis
    proof (cases "runOutcome env i")
      case Saved
      show ?thesis
      proof (cases "jsToString (jsOr (shotNumber item) (JNum 1))")
        case (Inl e)
        with shot str Saved jsToString_message(1) [OF Inl] show ?thesis
          by (simp add: clipRecord_def generateSingleClip_def clipTry_def failedClip_def)
      next
        case (Inr t')
        with shot str Saved show ?thesis
          by (simp add: clipRecord_def generateSingleClip_def clipTry_def Let_def pathJoin_def)
      qed
    next
      case UnexpectedOutput
      with shot str show ?thesis
        by (cases ex)
           (simp_all add: clipRecord_def generateSingleClip_def clipTry_def failedClip_def)
    next
      case (Thrown msg)
      with shot str show ?thesis
        by (simp add: clipRecord_def generateSingleClip_def clipTry_def failedClip_def)
    qed
  qed
qed

lemma in_set_map_enumerate:
  "r \<in> set (map (\<lambda>(j, x). f j x) (enumerate i xs)) \<Longrightarrow> \<exists>j x. r = f j x"
  by auto

text \<open>
  C8 (amended). Every record in the result list of the image executor and of the video
  executors is either fully successful (\<^verbatim>\<open>success = true\<close>, non-empty url and local
  path, no error field) or fully failed (\<^verbatim>\<open>success = false\<close>, empty url and local path,
  an error field that carries the message of the error); the message is empty only when
  the provider threw an error with an empty message.
\<close>

theorem record_is_success_or_failure:
  "(executeImageGenNode nodeData lastOutput apiKey envKey env = Inr (out, tr) \<longrightarrow>
      (\<forall>r \<in> set (images out).
         (img_success r \<and> img_url r \<noteq> [] \<and> img_localPath r \<noteq> [] \<and> img_error r = None) \<or>
         (\<not> img_success r \<and> img_url r = [] \<and> img_localPath r = [] \<and>
          (\<exists>m. img_error r = Some m \<and> (m = [] \<longrightarrow> (\<exists>i. runOutcome env i = Thrown [])))))) \<and>
   (executeVideoGenNode ex config lastOutput apiKey envKey env tool = Inr (vout, vtr) \<longrightarrow>
      (\<forall>c \<in> set (clips vout).
         (clip_success c \<and> clip_url c \<noteq> [] \<and> clip_localPath c \<noteq> [] \<and> clip_error c = None) \<or>
         (\<not> clip_success c \<and> clip_url c = [] \<and> clip_localPath c = [] \<and>
          (\<exists>m. clip_error c = Some m \<and> (m = [] \<longrightarrow> (\<exists>i. runOutcome env i = Thrown []))))))"
proof (intro conjI impI ballI)
  fix r
  assume "executeImageGenNode nodeData lastOutput apiKey envKey env = Inr (out, tr)"
    and r: "r \<in> set (images out)"
  then obtain prompts publicDir where
    "generateImages (resolveModelKey nodeData) publicDir env prompts = Inr (out, tr)"
    using executeImageGenNode_Inr by blast
  from generateImages_Inr [OF this] r obtain j item where
    "r = imageRecord (resolveModelKey nodeData) publicDir env j item"
    using in_set_map_enumerate
      [of r "imageRecord (resolveModelKey nodeData) publicDir env" 0 "take MAX_IMAGES prompts"]
    by auto
  with imageRecord_shape [of "resolveModelKey nodeData" publicDir env j item]
  show "(img_success r \<and> img_url r \<noteq> [] \<and> img_localPath r \<noteq> [] \<and> img_error r = None) \<or>
         (\<not> img_success r \<and> img_url r = [] \<and> img_localPath r = [] \<and>
          (\<exists>m. img_error r = Some m \<and> (m = [] \<longrightarrow> (\<exists>i. runOutcome env i = Thrown []))))"
    by auto
next
  fix c
  assume "executeVideoGenNode ex config lastOutput apiKey envKey env tool = Inr (vout, vtr)"
    and c: "c \<in> set (clips vout)"
  then obtain prompts outputDir where
    "generateClips ex config outputDir env tool prompts = Inr (vout, vtr)"
    using executeVideoGenNode_Inr by blast
  from generateClips_Inr [OF this] c obtain j item where
    "c = clipRecord ex outputDir env (resolveVideoModel ex config) (resolveDuration config) j item"
    using in_set_map_enumerate
      [of c "clipRecord ex outputDir env (resolveVideoModel ex config) (resolveDuration config)"
         0 "take MAX_CLIPS prompts"]
    by auto
  with clipRecord_shape
    [of ex outputDir env "resolveVideoModel ex config" "resolveDuration config" j item]
  show "(clip_success c \<and> clip_url c \<noteq> [] \<and> clip_localPath c \<noteq> [] \<and> clip_error c = None) \<or>
         (\<not> clip_success c \<and> clip_url c = [] \<and> clip_localPath c = [] \<and>
          (\<exists>m. clip_error c = Some m \<and> (m = [] \<longrightarrow> (\<exists>i. runOutcome env i = Thrown []))))"
    by auto
qed
theorem record_is_success_or_failure_witness:
  "\<not> isl sampleImageRun \<and>
   length (images (fst (projr sampleImageRun))) = 3 \<and>
   list_all (\<lambda>r.
       (img_success r \<and> img_url r \<noteq> [] \<and> img_localPath r \<noteq> [] \<and> img_error r = None) \<or>
       (\<not> img_success r \<and> img_url r = [] \<and> img_localPath r = [] \<and>
        (\<exists>m. img_error r = Some m \<and> (m = [] \<longrightarrow> (\<exists>i. runOutcome sampleEnv i = Thrown [])))))
     (images (fst (projr sampleImageRun))) \<and>
   \<not> isl sampleVideoRun \<and>
   length (clips (fst (projr sampleVideoRun))) = 3 \<and>
   list_all (\<lambda>c.
       (clip_success c \<and> clip_url c \<noteq> [] \<and> clip_localPath c \<noteq> [] \<and> clip_error c = None) \<or>
       (\<not> clip_success c \<and> clip_url c = [] \<and> clip_localPath c = [] \<and>
        (\<exists>m. clip_error c = Some m \<and> (m = [] \<longrightarrow> (\<exists>i. runOutcome sampleEnv i = Thrown [])))))
     (clips (fst (projr sampleVideoRun)))"
proof -
  have ip: "extractPrompts threeShots = Inr threeImageItems"
    by code_simp
  have vp: "videoPrompts ReplicateExecutor threeShots = Inr threeVideoItems"
    by code_simp
  have "\<exists>out tr. sampleImageRun = Inr (out, tr)"
    unfolding sampleImageRun_def
    by (rule executeImageGenNode_returns [OF _ _ ip]) code_simp+
  then obtain out tr where ir: "sampleImageRun = Inr (out, tr)"
    by blast
  have "\<exists>out tr. sampleVideoRun = Inr (out, tr)"
    unfolding sampleVideoRun_def
    by (rule executeVideoGenNode_returns [OF _ _ vp]) code_simp+
  then obtain vout vtr where vr: "sampleVideoRun = Inr (vout, vtr)"
    by blast
  from ir ip obtain publicDir where
    "generateImages (resolveModelKey defaultImageNode) publicDir sampleEnv threeImageItems =
       Inr (out, tr)"
    using executeImageGenNode_Inr [of defaultImageNode threeShots "Some ''r8_key''" None
        sampleEnv "(out, tr)"]
    by (auto simp: sampleImageRun_def)
  from generateImages_Inr [OF this] have il: "length (images out) = 3"
    by (simp add: MAX_IMAGES_def threeImageItems_def)
  from vr vp obtain outputDir where
    "generateClips ReplicateExecutor defaultVideoConfig outputDir sampleEnv sampleTool
       threeVideoItems = Inr (vout, vtr)"
    using executeVideoGenNode_Inr [of ReplicateExecutor defaultVideoConfig threeShots
        "Some ''r8_key''" None sampleEnv sampleTool "(vout, vtr)"]
    by (auto simp: sampleVideoRun_def)
  from generateClips_Inr [OF this] have vl: "length (clips vout) = 3"
    by (simp add: MAX_CLIPS_def threeVideoItems_def)
  from ir vr record_is_success_or_failure
    [of defaultImageNode threeShots "Some ''r8_key''" None sampleEnv out tr
        ReplicateExecutor defaultVideoConfig sampleTool vout vtr]
  show ?thesis
    using il vl by (simp add: list_all_iff sampleImageRun_def sampleVideoRun_def)
qed

text \<open>
  The claim as stated fails on the error message: when the provider throws an error
  whose message is empty, the failed record carries an empty error message.
\<close>

theorem record_empty_error_counterexample:
  "executeImageGenNode defaultImageNode (JStr ''a red kite over dunes'') (Some ''r8_key'') None
     silentEnv =
   Inr (\<lparr>images =
           [\<lparr>img_shotNumber = JNum 1, img_url = [], img_localPath = [],
             img_originalPrompt = JStr ''a red kite over dunes'',
             img_aspectRatio = JStr ''4:3'', img_style = JStr ''cinematic'',
             img_model = ''black-forest-labs/flux-dev'', img_duration = 0,
             img_estimatedCost = 0, img_success = False, img_error = Some []\<rparr>],
         totalGenerated = 0, totalFailed = 1, totalRequested = 1, estimatedTotalCost = 0,
         provider = ''replicate'', model = ''flux-dev'',
         modelId = ''black-forest-labs/flux-dev'', savedToPublic = True,
         publicPath = ''/generated-images/''\<rparr>,
        [ProviderCall 0 (JStr ''a red kite over dunes'')])"
  by code_simp

subsection \<open>Costs\<close>

text \<open>A provider that serves every item, and the run of the Replicate video executor
  with its default configuration (MiniMax, 5 seconds) on two prompts.\<close>

definition servingEnv :: environment where
  "servingEnv =
     \<lparr>cwd = ''/app'', mkdirError = None, runOutcome = (\<lambda>i. Saved),
      startTime = (\<lambda>i. 1000), timestamp = (\<lambda>i. 17), endTime = (\<lambda>i. 3140)\<rparr>"

definition twoShots :: jsval where
  "twoShots = JArr [JStr ''a red kite over dunes'', JStr ''a blue kite over dunes'']"

definition twoClipRun :: "jsError + videoGenOutput \<times> event list" where
  "twoClipRun =
     executeVideoGenNode ReplicateExecutor defaultVideoConfig twoShots (Some ''r8_key'') None
       servingEnv sampleTool"

text \<open>The Runway executor with 5-second clips, priced at 0.05 a second.\<close>

definition runwayConfig :: videoGenConfig where
  "runwayConfig = \<lparr>config_model = Some ''gen3a_turbo'', config_duration = Some 5\<rparr>"









lemma twoClipRun_returns: "\<exists>out tr. twoClipRun = Inr (out, tr)"
proof -
  have "videoPrompts ReplicateExecutor twoShots =
      Inr (projr (videoPrompts ReplicateExecutor twoShots))"
    by code_simp
  then show ?thesis
    unfolding twoClipRun_def
    by (rule executeVideoGenNode_returns [rotated 2]) code_simp+
qed



subsection \<open>The safety limit\<close>

text \<open>Inputs of \<open>n\<close> equal prompts.\<close>

definition manyShots :: "nat \<Rightarrow> jsval" where
  "manyShots n = JArr (replicate n (JStr ''a kite over dunes''))"

lemma image_call_range:
  "ProviderCall j q \<in>
     set (concat (map (\<lambda>(j, item). imageEvents modelKey publicDir env n j item) (enumerate a xs)))
   \<Longrightarrow> a \<le> j \<and> j < a + length xs"
proof (induction xs arbitrary: a)
  case Nil
  then show ?case by simp
next
  case (Cons x xs)
  from Cons.prems have
    "ProviderCall j q \<in> set (imageEvents modelKey publicDir env n a x) \<or>
     ProviderCall j q \<in> set (concat (map (\<lambda>(j, item). imageEvents modelKey publicDir env n j item)
       (enumerate (Suc a) xs)))"
    by simp
  then show ?case
  proof
    assume "ProviderCall j q \<in> set (imageEvents modelKey publicDir env n a x)"
    then have "j = a"
      by (auto simp: imageEvents_def split: sum.splits if_splits)
    then show ?thesis by simp
  next
    assume "ProviderCall j q \<in> set (concat (map (\<lambda>(j, item).
      imageEvents modelKey publicDir env n j item) (enumerate (Suc a) xs)))"
    from Cons.IH [OF this] show ?thesis by simp
  qed
qed

lemma video_call_range:
  "ProviderCall j q \<in>
     set (concat (map (\<lambda>(j, item). clipEvents ex outputDir env m duration n j item)
       (enumerate a xs)))
   \<Longrightarrow> a \<le> j \<and> j < a + length xs"
proof (induction xs arbitrary: a)
  case Nil
  then show ?case by simp
next
  case (Cons x xs)
  from Cons.prems have
    "ProviderCall j q \<in> set (clipEvents ex outputDir env m duration n a x) \<or>
     ProviderCall j q \<in> set (concat (map (\<lambda>(j, item).
       clipEvents ex outputDir env m duration n j item) (enumerate (Suc a) xs)))"
    by simp
  then show ?case
  proof
    assume "ProviderCall j q \<in> set (clipEvents ex outputDir env m duration n a x)"
    then have "j = a"
      by (auto simp: clipEvents_def split: sum.splits if_splits)
    then show ?thesis by simp
  next
    assume "ProviderCall j q \<in> set (concat (map (\<lambda>(j, item).
      clipEvents ex outputDir env m duration n j item) (enumerate (Suc a) xs)))"
    from Cons.IH [OF this] show ?thesis by simp
  qed
qed

lemma generateImages_take:
  "generateImages modelKey publicDir env (take MAX_IMAGES prompts) =
   generateImages modelKey publicDir env prompts"
  by (simp add: generateImages_def)

lemma generateClips_take:
  "generateClips ex config outputDir env tool (take MAX_CLIPS prompts) =
   generateClips ex config outputDir env tool prompts"
  by (simp add: generateClips_def)

lemma executeImageGenNode_truncated:
  assumes "extractPrompts lastOutput = Inr prompts"
    and "extractPrompts lastOutput' = Inr (take MAX_IMAGES prompts)"
  shows "executeImageGenNode nodeData lastOutput' apiKey envKey env =
         executeImageGenNode nodeData lastOutput apiKey envKey env"
  using assms by (simp add: executeImageGenNode_def generateImages_take)

lemma executeVideoGenNode_truncated:
  assumes "videoPrompts ex lastOutput = Inr prompts"
    and "videoPrompts ex lastOutput' = Inr (take MAX_CLIPS prompts)"
  shows "executeVideoGenNode ex config lastOutput' apiKey envKey env tool =
         executeVideoGenNode ex config lastOutput apiKey envKey env tool"
  using assms by (simp add: executeVideoGenNode_def generateClips_take)

text \<open>
  C2 (amended). The executor cuts the batch to its first 20 (image) or 10 (video) work
  items before the loop: provider calls are made for those items only, and the outcome
  has exactly one record for each of them. The truncation is written to the log only:
  the returned outcome and the trace are those of a run whose input holds just the first
  20 (10) items, so nothing in the outcome reports that items were dropped.
\<close>

theorem batch_is_truncated_silently:
  "(executeImageGenNode nodeData lastOutput apiKey envKey env = Inr (out, tr) \<and>
    extractPrompts lastOutput = Inr prompts \<longrightarrow>
      length (images out) = min 20 (length prompts) \<and>
      (\<forall>i p. ProviderCall i p \<in> set tr \<longrightarrow> i < 20) \<and>
      (\<forall>lastOutput'. extractPrompts lastOutput' = Inr (take 20 prompts) \<longrightarrow>
         executeImageGenNode nodeData lastOutput' apiKey envKey env = Inr (out, tr))) \<and>
   (executeVideoGenNode ex config lastOutput apiKey envKey env tool = Inr (vout, vtr) \<and>
    videoPrompts ex lastOutput = Inr vprompts \<longrightarrow>
      length (clips vout) = min 10 (length vprompts) \<and>
      (\<forall>i p. ProviderCall i p \<in> set vtr \<longrightarrow> i < 10) \<and>
      (\<forall>lastOutput'. videoPrompts ex lastOutput' = Inr (take 10 vprompts) \<longrightarrow>
         executeVideoGenNode ex config lastOutput' apiKey envKey env tool = Inr (vout, vtr)))"
proof (intro conjI impI allI)
  assume a: "executeImageGenNode nodeData lastOutput apiKey envKey env = Inr (out, tr) \<and>
    extractPrompts lastOutput = Inr prompts"
  then obtain publicDir where
    "generateImages (resolveModelKey nodeData) publicDir env prompts = Inr (out, tr)"
    using executeImageGenNode_Inr [of nodeData lastOutput apiKey envKey env "(out, tr)"]
    by auto
  note g = generateImages_Inr [OF this]
  from g show "length (images out) = min 20 (length prompts)"
    by (simp add: MAX_IMAGES_def)
  {
    fix i p
    assume "ProviderCall i p \<in> set tr"
    with g image_call_range
      [of i p "resolveModelKey nodeData" publicDir env "length (take MAX_IMAGES prompts)" 0
          "take MAX_IMAGES prompts"]
    show "i < 20" by (simp add: MAX_IMAGES_def)
  }
  {
    fix lastOutput'
    assume "extractPrompts lastOutput' = Inr (take 20 prompts)"
    with a executeImageGenNode_truncated [of lastOutput prompts lastOutput' nodeData apiKey envKey env]
    show "executeImageGenNode nodeData lastOutput' apiKey envKey env = Inr (out, tr)"
      by (simp add: MAX_IMAGES_def)
  }
next
  assume a: "executeVideoGenNode ex config lastOutput apiKey envKey env tool = Inr (vout, vtr) \<and>
    videoPrompts ex lastOutput = Inr vprompts"
  then obtain outputDir where
    "generateClips ex config outputDir env tool vprompts = Inr (vout, vtr)"
    using executeVideoGenNode_Inr [of ex config lastOutput apiKey envKey env tool "(vout, vtr)"]
    by auto
  note g = generateClips_Inr [OF this]
  from g show "length (clips vout) = min 10 (length vprompts)"
    by (simp add: MAX_CLIPS_def)
  {
    fix i p
    assume "ProviderCall i p \<in> set vtr"
    with g video_call_range
      [of i p ex outputDir env "resolveVideoModel ex config" "resolveDuration config"
          "length (take MAX_CLIPS vprompts)" 0 "take MAX_CLIPS vprompts"]
    show "i < 10" by (simp add: MAX_CLIPS_def)
  }
  {
    fix lastOutput'
    assume "videoPrompts ex lastOutput' = Inr (take 10 vprompts)"
    with a executeVideoGenNode_truncated
      [of ex lastOutput vprompts lastOutput' config apiKey envKey env tool]
    show "executeVideoGenNode ex config lastOutput' apiKey envKey env tool = Inr (vout, vtr)"
      by (simp add: MAX_CLIPS_def)
  }
qed
text \<open>Runs on \<open>n\<close> equal prompts with a provider that serves every item.\<close>

definition imageRunOf :: "nat \<Rightarrow> jsError + imageGenOutput \<times> event list" where
  "imageRunOf n =
     executeImageGenNode defaultImageNode (manyShots n) (Some ''r8_key'') None servingEnv"

definition videoRunOf :: "nat \<Rightarrow> jsError + videoGenOutput \<times> event list" where
  "videoRunOf n =
     executeVideoGenNode RunwayExecutor runwayConfig (manyShots n) (Some ''key_abc'') None
       servingEnv sampleTool"

lemma manyShots_image_prompts:
  "extractPrompts (manyShots 25) = Inr (projr (extractPrompts (manyShots 25)))"
  "extractPrompts (manyShots 20) = Inr (take MAX_IMAGES (projr (extractPrompts (manyShots 25))))"
  "list_all imageRunnable (take MAX_IMAGES (projr (extractPrompts (manyShots 25))))"
  "length (projr (extractPrompts (manyShots 25))) = 25"
  by code_simp+

lemma manyShots_video_prompts:
  "videoPrompts RunwayExecutor (manyShots 15) =
     Inr (projr (videoPrompts RunwayExecutor (manyShots 15)))"
  "videoPrompts RunwayExecutor (manyShots 10) =
     Inr (take MAX_CLIPS (projr (videoPrompts RunwayExecutor (manyShots 15))))"
  "list_all videoRunnable (take MAX_CLIPS (projr (videoPrompts RunwayExecutor (manyShots 15))))"
  "length (projr (videoPrompts RunwayExecutor (manyShots 15))) = 15"
  by code_simp+

lemma imageRunOf_25_returns: "\<exists>out tr. imageRunOf 25 = Inr (out, tr)"
  unfolding imageRunOf_def
  by (rule executeImageGenNode_returns
        [OF _ _ manyShots_image_prompts(1) manyShots_image_prompts(3)]) code_simp+

lemma videoRunOf_15_returns: "\<exists>out tr. videoRunOf 15 = Inr (out, tr)"
  unfolding videoRunOf_def
  by (rule executeVideoGenNode_returns
        [OF _ _ manyShots_video_prompts(1) manyShots_video_prompts(3)]) code_simp+

theorem batch_is_truncated_silently_witness:
  "\<not> isl (imageRunOf 25) \<and>
   extractPrompts (manyShots 25) = Inr (projr (extractPrompts (manyShots 25))) \<and>
   length (projr (extractPrompts (manyShots 25))) = 25 \<and>
   length (images (fst (projr (imageRunOf 25)))) = 20 \<and>
   extractPrompts (manyShots 20) = Inr (take 20 (projr (extractPrompts (manyShots 25)))) \<and>
   imageRunOf 20 = imageRunOf 25 \<and>
   \<not> isl (videoRunOf 15) \<and>
   length (clips (fst (projr (videoRunOf 15)))) = 10 \<and>
   videoPrompts RunwayExecutor (manyShots 10) =
     Inr (take 10 (projr (videoPrompts RunwayExecutor (manyShots 15)))) \<and>
   videoRunOf 10 = videoRunOf 15"
proof -
  from imageRunOf_25_returns obtain out tr where ir: "imageRunOf 25 = Inr (out, tr)"
    by blast
  from videoRunOf_15_returns obtain vout vtr where vr: "videoRunOf 15 = Inr (vout, vtr)"
    by blast
  note ip = manyShots_image_prompts [unfolded MAX_IMAGES_def]
  note vp = manyShots_video_prompts [unfolded MAX_CLIPS_def]
  from ir ip(1) batch_is_truncated_silently
    [where nodeData = defaultImageNode and lastOutput = "manyShots 25"
       and apiKey = "Some ''r8_key''" and envKey = None and env = servingEnv
       and out = out and tr = tr and prompts = "projr (extractPrompts (manyShots 25))"]
  have image: "length (images out) = min 20 (length (projr (extractPrompts (manyShots 25)))) \<and>
      (\<forall>lastOutput'.
         extractPrompts lastOutput' = Inr (take 20 (projr (extractPrompts (manyShots 25)))) \<longrightarrow>
         executeImageGenNode defaultImageNode lastOutput' (Some ''r8_key'') None servingEnv =
           Inr (out, tr))"
    unfolding imageRunOf_def by blast
  from vr vp(1) batch_is_truncated_silently
    [where lastOutput = "manyShots 15" and apiKey = "Some ''key_abc''" and envKey = None
       and env = servingEnv and ex = RunwayExecutor and config = runwayConfig
       and tool = sampleTool and vout = vout and vtr = vtr
       and vprompts = "projr (videoPrompts RunwayExecutor (manyShots 15))"]
  have video: "length (clips vout) =
        min 10 (length (projr (videoPrompts RunwayExecutor (manyShots 15)))) \<and>
      (\<forall>lastOutput'.
         videoPrompts RunwayExecutor lastOutput' =
           Inr (take 10 (projr (videoPrompts RunwayExecutor (manyShots 15)))) \<longrightarrow>
         executeVideoGenNode RunwayExecutor runwayConfig lastOutput' (Some ''key_abc'') None
           servingEnv sampleTool = Inr (vout, vtr))"
    unfolding videoRunOf_def by blast
  from image ip(2) have "imageRunOf 20 = Inr (out, tr)"
    unfolding imageRunOf_def by blast
  moreover from video vp(2) have "videoRunOf 10 = Inr (vout, vtr)"
    unfolding videoRunOf_def by blast
  ultimately show ?thesis
    using image video ir vr ip vp by simp
qed

text \<open>
  The claim as stated fails on the report: a request of 25 image items returns the very
  outcome of a request of 20 (20 records, \<^verbatim>\<open>totalRequested\<close> 20), and a request of 15
  video items the very outcome of a request of 10; no field tells them apart.
\<close>

theorem truncation_not_reported_counterexample:
  "imageRunOf 25 = imageRunOf 20 \<and>
   \<not> isl (imageRunOf 25) \<and>
   length (images (fst (projr (imageRunOf 25)))) = 20 \<and>
   totalRequested (fst (projr (imageRunOf 25))) = 20 \<and>
   videoRunOf 15 = videoRunOf 10 \<and>
   \<not> isl (videoRunOf 15) \<and>
   length (clips (fst (projr (videoRunOf 15)))) = 10"
proof -
  from imageRunOf_25_returns obtain out tr where ir: "imageRunOf 25 = Inr (out, tr)"
    by blast
  from videoRunOf_15_returns obtain vout vtr where vr: "videoRunOf 15 = Inr (vout, vtr)"
    by blast
  have ieq: "imageRunOf 20 = imageRunOf 25"
    unfolding imageRunOf_def
    by (rule executeImageGenNode_truncated
          [OF manyShots_image_prompts(1) manyShots_image_prompts(2)])
  have veq: "videoRunOf 10 = videoRunOf 15"
    unfolding videoRunOf_def
    by (rule executeVideoGenNode_truncated
          [OF manyShots_video_prompts(1) manyShots_video_prompts(2)])
  from ir obtain publicDir where
    "generateImages (resolveModelKey defaultImageNode) publicDir servingEnv
       (projr (extractPrompts (manyShots 25))) = Inr (out, tr)"
    using executeImageGenNode_Inr [of defaultImageNode "manyShots 25" "Some ''r8_key''" None
        servingEnv "(out, tr)"] manyShots_image_prompts(1)
    by (auto simp: imageRunOf_def)
  from generateImages_Inr [OF this] manyShots_image_prompts(4)
  have il: "length (images out) = 20" "totalRequested out = 20"
    by (simp_all add: MAX_IMAGES_def)
  from vr obtain outputDir where
    "generateClips RunwayExecutor runwayConfig outputDir servingEnv sampleTool
       (projr (videoPrompts RunwayExecutor (manyShots 15))) = Inr (vout, vtr)"
    using executeVideoGenNode_Inr [of RunwayExecutor runwayConfig "manyShots 15"
        "Some ''key_abc''" None servingEnv sampleTool "(vout, vtr)"] manyShots_video_prompts(1)
    by (auto simp: videoRunOf_def)
  from generateClips_Inr [OF this] manyShots_video_prompts(4)
  have vl: "length (clips vout) = 10"
    by (simp add: MAX_CLIPS_def)
  show ?thesis
    unfolding ieq veq ir vr using il vl by simp
qed

subsection \<open>Provider failures\<close>













end
